theory Spec2Isabelle
  imports Complex_Main
begin

section \<open>Frost-cracking model: the class FROST\_CRACK\_2D of frost-cracking-index.ipynb\<close>

text \<open>
  The notebook's class holds a grid of temperature columns (one 1-D depth profile per
  DEM cell), advances the column of one hard-coded cell by an explicit diffusion step
  and counts the time that cell's samples spend in the frost-cracking window.

  Numbers: the source computes in float64. The embedding computes in \<^typ>\<open>real\<close>,
  so every statement below is about the arithmetic the source writes down, without
  rounding, NaN or infinity. A division of two Python floats by zero raises
  ZeroDivisionError, and the embedding has that branch. A numpy division by \<open>dz = 0\<close>
  and \<open>np.mean\<close> of an empty array give infinity or NaN instead, where the embedding
  gives 0; lemma \<open>constructed_object_sane\<close> shows that no object made by the constructor
  gets there. Python integers that are never negative
  (\<open>current_timestep\<close>, array indices) are \<^typ>\<open>nat\<close>; the constructor argument
  \<open>num_nodes\<close> is an \<^typ>\<open>int\<close>, since the caller may pass any integer.

  Arrays: a numpy array of one, two or three axes is a list, a list of rows, a list of
  rows of columns. The shape of an array with an empty leading axis is lost in this
  representation; all such arrays fail at the first access to cell (500, 400) anyway.

  Exceptions are values: a failing constructor returns \<open>Inl e\<close> (no object exists),
  a failing method returns \<open>Inl (e, s)\<close> with \<open>s\<close> the attributes of the object at
  the moment of the raise.
\<close>

datatype error =
    UnboundLocalError
  | IndexError
  | ValueError
  | ZeroDivisionError
  | AssertionError
  | AttributeError

type_synonym array1 = "real list"
type_synonym array2 = "real list list"
type_synonym array3 = "real list list list"

subsection \<open>The numpy routines the class calls\<close>

definition np_mean :: "array1 \<Rightarrow> real" where
  "np_mean xs = sum_list xs / real (length xs)"

text \<open>\<open>np.diff(a)\<close> is \<open>a[1:] - a[:-1]\<close>.\<close>

definition np_diff :: "array1 \<Rightarrow> array1" where
  "np_diff xs = map2 (\<lambda>a b. b - a) xs (tl xs)"

text \<open>\<open>np.arange(start, stop, step)\<close> for a positive step:
  \<open>ceil((stop - start) / step)\<close> values \<open>start + i * step\<close>.\<close>

definition np_arange :: "real \<Rightarrow> real \<Rightarrow> real \<Rightarrow> array1" where
  "np_arange start stop step =
     map (\<lambda>i. start + real i * step) [0 ..< nat \<lceil>(stop - start) / step\<rceil>]"

text \<open>\<open>np.linspace(start, stop, num)\<close>: \<open>num\<close> evenly spaced samples, both ends
  included; a negative \<open>num\<close> raises ValueError.\<close>

definition np_linspace :: "real \<Rightarrow> real \<Rightarrow> int \<Rightarrow> error + array1" where
  "np_linspace start stop num =
     (if num < 0 then Inl ValueError
      else if num = 1 then Inr [start]
      else Inr (map (\<lambda>i. start + real i * ((stop - start) / real_of_int (num - 1)))
                  [0 ..< nat num]))"

text \<open>\<open>np.interp(x, xp, fp)\<close>: piecewise linear interpolation through the points
  \<open>(xp, fp)\<close> (\<open>xp\<close> increasing), constant outside of them. One result per entry of
  \<open>x\<close>; ValueError when \<open>xp\<close> is empty or \<open>fp\<close> has another length.\<close>

fun interp_point :: "array1 \<Rightarrow> array1 \<Rightarrow> real \<Rightarrow> real" where
  "interp_point (x0 # x1 # xp) (f0 # f1 # fp) v =
     (if v < x1 then (f1 - f0) / (x1 - x0) * (v - x0) + f0
      else interp_point (x1 # xp) (f1 # fp) v)"
| "interp_point xp (f0 # fp) v = f0"
| "interp_point xp [] v = 0"

definition np_interp :: "array1 \<Rightarrow> array1 \<Rightarrow> array1 \<Rightarrow> error + array1" where
  "np_interp xs xp fp =
     (if xp = [] \<or> length fp \<noteq> length xp then Inl ValueError
      else Inr (map (\<lambda>v. if v \<le> hd xp then hd fp else interp_point xp fp v) xs))"

text \<open>Elementwise sum of two arrays of the same shape.\<close>

definition array3_add :: "array3 \<Rightarrow> array3 \<Rightarrow> array3" where
  "array3_add a b = map2 (map2 (map2 (+))) a b"

text \<open>\<open>np.zeros_like(a)\<close>.\<close>

definition zeros_like :: "array3 \<Rightarrow> array3" where
  "zeros_like a = map (map (map (\<lambda>_. 0))) a"

subsection \<open>Indexing one column of a three-axis array\<close>

text \<open>\<open>a[x, y, :]\<close> exists when \<open>x\<close> and \<open>y\<close> are inside the first two axes;
  otherwise numpy raises IndexError.\<close>

definition in_grid :: "array3 \<Rightarrow> nat \<Rightarrow> nat \<Rightarrow> bool" where
  "in_grid a i j = (i < length a \<and> j < length (a ! i))"

definition column :: "array3 \<Rightarrow> nat \<Rightarrow> nat \<Rightarrow> array1" where
  "column a i j = a ! i ! j"

definition set_column :: "array3 \<Rightarrow> nat \<Rightarrow> nat \<Rightarrow> array1 \<Rightarrow> array3" where
  "set_column a i j c = a[i := (a ! i)[j := c]]"

text \<open>\<open>c[1:-1]\<close>, and the assignment \<open>c[1:-1] = v\<close> for \<open>v\<close> of the slice's length.\<close>

definition inner_slice :: "array1 \<Rightarrow> array1" where
  "inner_slice c = butlast (tl c)"

definition set_inner_slice :: "array1 \<Rightarrow> array1 \<Rightarrow> array1" where
  "set_inner_slice c v = (if length c < 2 then c else hd c # v @ [last c])"

text \<open>\<open>c[msk] += v\<close> for a boolean mask of the length of \<open>c\<close>.\<close>

definition masked_add :: "array1 \<Rightarrow> bool list \<Rightarrow> real \<Rightarrow> array1" where
  "masked_add c msk v = map2 (\<lambda>a m. if m then a + v else a) c msk"

subsection \<open>The object\<close>

text \<open>The attributes of \<open>self\<close> that the numerical core reads or writes. The
  attributes \<open>self.x\<close> and \<open>self.y\<close> do not exist before the first step.\<close>

record frost_crack_2d =
  grid_rows :: nat
  grid_cols :: nat
  elevation :: array2
  T_ele :: real
  Ts_org :: array1
  t_org_start :: real
  Ts :: array1
  time :: array1
  dz :: real
  timestep_duration_should :: real
  timestep_duration_is :: real
  temp_lapse_rate :: real
  Ts_ini :: real
  Ts0_ele :: array3
  depth :: array1
  temp :: array3
  frostcrackA :: array3
  frostcrackHR :: array3
  geotherm :: real
  thermal_diffusivity :: real
  num_nodes :: int
  current_time :: real
  current_timestep :: nat
  max_act_layer_depth :: real
  self_x :: "nat option"
  self_y :: "nat option"

text \<open>What the constructor is given: its keyword arguments, and what it reads from
  the two files. Opening the files, choosing the climate cell nearest to (lat, lon),
  filling the DEM's gaps and building the landlab grid are the work of rasterio, netCDF4,
  landlab and the first lines of the \<open>use_dem\<close> branch; their results enter here as
  \<open>file_dem_elevation\<close> (\<open>dem_data[0]\<close>, gaps filled),
  \<open>file_dem_mean\<close> (\<open>np.mean(dem_data)\<close>),
  \<open>file_time\<close> (the variable \<open>time\<close>, in days) and
  \<open>file_ts\<close> (the variable \<open>ts\<close> at the chosen cell, in Kelvin).\<close>

record config =
  arg_use_dem :: bool
  arg_temp_lapse_rate :: real
  arg_thermal_diffusivity :: real
  arg_profile_depth :: real
  arg_geotherm :: real
  arg_num_nodes :: int
  file_dem_elevation :: array2
  file_dem_mean :: real
  file_time :: array1
  file_ts :: array1

subsection \<open>The constructor\<close>

text \<open>
  \<open>__init__\<close>, statement by statement.
  With \<open>use_dem = False\<close> the first loop of the branch (over the notebook's global
  \<open>rows = 10\<close>) assigns into the local \<open>dem\<close> before it is bound
  (UnboundLocalError).
  \<open>time[0]\<close> of an empty time axis raises IndexError; \<open>np.interp\<close> raises
  ValueError; the two float divisions raise ZeroDivisionError on a zero divisor;
  \<open>self.time[1]\<close> raises IndexError when the hourly axis has fewer than two
  samples; the \<open>assert\<close> raises AssertionError; \<open>np.repeat\<close> and \<open>np.linspace\<close>
  raise ValueError on a negative count.
\<close>

definition init :: "config \<Rightarrow> error + frost_crack_2d" where
  "init cfg =
    (if \<not> arg_use_dem cfg then Inl UnboundLocalError
     else if file_time cfg = [] then Inl IndexError
     else
        let t0 = hd (file_time cfg);
            Ts_org' = map (\<lambda>v. v - 273.15) (file_ts cfg);
            t = map (\<lambda>v. (v - t0) * 24 * 60 * 60) (file_time cfg);
            tnew = np_arange 0 (last t) 3600
        in (case np_interp tnew t Ts_org' of
          Inl e \<Rightarrow> Inl e
        | Inr Ts_new \<Rightarrow>
           if arg_num_nodes cfg - 1 = 0 then Inl ZeroDivisionError
           else let dz' = arg_profile_depth cfg / real_of_int (arg_num_nodes cfg - 1) in
           if 2 * arg_thermal_diffusivity cfg = 0 then Inl ZeroDivisionError
           else let should = dz' * dz' / (2 * arg_thermal_diffusivity cfg) in
           if length tnew < 2 then Inl IndexError
           else let is = tnew ! 1 - tnew ! 0 in
           if \<not> (should > is) then Inl AssertionError
           else let Ts_ini' = np_mean Ts_new;
                    Ts0 = map (map (\<lambda>e. Ts_ini' +
                            arg_temp_lapse_rate cfg * (e - file_dem_mean cfg)))
                            (file_dem_elevation cfg) in
           if arg_num_nodes cfg < 0 then Inl ValueError
           else let Ts0_ele' = map (map (\<lambda>v. replicate (nat (arg_num_nodes cfg)) v)) Ts0 in
           (case np_linspace 0 (arg_profile_depth cfg) (arg_num_nodes cfg) of
             Inl e \<Rightarrow> Inl e
           | Inr depth' \<Rightarrow>
              let rows = length (file_dem_elevation cfg);
                  cols = (if file_dem_elevation cfg = [] then 0
                          else length (hd (file_dem_elevation cfg)));
                  geotherm_grad = map (\<lambda>d. arg_geotherm cfg * d) depth';
                  geotherm_matrix = replicate rows (replicate cols geotherm_grad);
                  temp' = array3_add Ts0_ele' geotherm_matrix
              in Inr \<lparr> grid_rows = rows,
                       grid_cols = cols,
                       elevation = file_dem_elevation cfg,
                       T_ele = file_dem_mean cfg,
                       Ts_org = Ts_org',
                       t_org_start = t0,
                       Ts = Ts_new,
                       time = tnew,
                       dz = dz',
                       timestep_duration_should = should,
                       timestep_duration_is = is,
                       temp_lapse_rate = arg_temp_lapse_rate cfg,
                       Ts_ini = Ts_ini',
                       Ts0_ele = Ts0_ele',
                       depth = depth',
                       temp = temp',
                       frostcrackA = zeros_like temp',
                       frostcrackHR = zeros_like temp',
                       geotherm = arg_geotherm cfg,
                       thermal_diffusivity = arg_thermal_diffusivity cfg,
                       num_nodes = arg_num_nodes cfg,
                       current_time = 0,
                       current_timestep = 0,
                       max_act_layer_depth = 0,
                       self_x = None,
                       self_y = None \<rparr>)))"

subsection \<open>One time step\<close>

text \<open>The result of a method: the object after a normal return, or the exception
  together with the object as the raise left it.\<close>

type_synonym outcome = "(error \<times> frost_crack_2d) + frost_crack_2d"

definition object_after :: "outcome \<Rightarrow> frost_crack_2d" where
  "object_after r = (case r of Inl (e, s) \<Rightarrow> s | Inr s \<Rightarrow> s)"

text \<open>The hard-coded cell: \<open>x, y = 500, 400\<close>.\<close>

definition cell_x :: nat where
  "cell_x = 500"

definition cell_y :: nat where
  "cell_y = 400"

text \<open>
  \<open>if self.current_timestep==0: self.temp[x,y,:] = np.mean(self.Ts_org) + self.geotherm * self.depth\<close>.
  The right-hand side has the length of \<open>depth\<close>. Assigning to a slice of
  \<open>n\<close> entries, numpy takes a value of \<open>n\<close> entries as it is, repeats a value of one
  entry and raises ValueError on any other length.
\<close>

definition broadcast_to :: "nat \<Rightarrow> array1 \<Rightarrow> error + array1" where
  "broadcast_to n v =
     (if length v = n then Inr v
      else if length v = 1 then Inr (replicate n (hd v))
      else Inl ValueError)"

definition seed_first_step :: "frost_crack_2d \<Rightarrow> outcome" where
  "seed_first_step s =
     (if current_timestep s = 0 then
        let rhs = map (\<lambda>d. np_mean (Ts_org s) + geotherm s * d) (depth s) in
        if \<not> in_grid (temp s) cell_x cell_y then Inl (IndexError, s)
        else (case broadcast_to (length (column (temp s) cell_x cell_y)) rhs of
                Inl e \<Rightarrow> Inl (e, s)
              | Inr v \<Rightarrow> Inr (s\<lparr>temp := set_column (temp s) cell_x cell_y v\<rparr>))
      else Inr s)"

text \<open>
  \<open>self.Ts_ini = self.Ts[self.current_timestep]\<close> and
  \<open>self.temp[x,y,0] = self.Ts_ini\<close>.
\<close>

definition assign_boundary :: "frost_crack_2d \<Rightarrow> outcome" where
  "assign_boundary s =
     (if \<not> current_timestep s < length (Ts s) then Inl (IndexError, s)
      else let s1 = s\<lparr>Ts_ini := Ts s ! current_timestep s\<rparr> in
        if \<not> in_grid (temp s1) cell_x cell_y then Inl (IndexError, s1)
        else if column (temp s1) cell_x cell_y = [] then Inl (IndexError, s1)
        else Inr (s1\<lparr>temp := set_column (temp s1) cell_x cell_y
                        ((column (temp s1) cell_x cell_y)[0 := Ts_ini s1])\<rparr>))"

text \<open>
  \<open>q = -self.thermal_diffusivity * np.diff(self.temp[x,y,:])/self.dz\<close> and
  \<open>self.temp[x,y,1:-1] = self.temp[x,y,1:-1] - self.timestep_duration_is*np.diff(q)/self.dz\<close>,
  on one column.
\<close>

definition flux :: "real \<Rightarrow> real \<Rightarrow> array1 \<Rightarrow> array1" where
  "flux kappa h c = map (\<lambda>d. - kappa * d / h) (np_diff c)"

definition diffuse_column :: "real \<Rightarrow> real \<Rightarrow> real \<Rightarrow> array1 \<Rightarrow> array1" where
  "diffuse_column kappa h dt c =
     set_inner_slice c
       (map2 (\<lambda>T d. T - dt * d / h) (inner_slice c) (np_diff (flux kappa h c)))"

definition diffuse :: "frost_crack_2d \<Rightarrow> frost_crack_2d" where
  "diffuse s =
     s\<lparr>temp := set_column (temp s) cell_x cell_y
                 (diffuse_column (thermal_diffusivity s) (dz s) (timestep_duration_is s)
                    (column (temp s) cell_x cell_y))\<rparr>"

text \<open>\<open>self.current_time += self.timestep_duration_is\<close> and
  \<open>self.current_timestep += 1\<close>.\<close>

definition advance_clock :: "frost_crack_2d \<Rightarrow> frost_crack_2d" where
  "advance_clock s =
     s\<lparr>current_time := current_time s + timestep_duration_is s,
       current_timestep := current_timestep s + 1\<rparr>"

text \<open>
  \<open>cond1 = self.temp[x,y,:] > -8\<close>, \<open>cond2 = self.temp[x,y,:] < -3\<close> and
  \<open>self.frostcrackA[x,y,:][cond1 & cond2] += 1/(3600*24*365)\<close>; then
  \<open>self.x=x\<close> and \<open>self.y=y\<close>.
  A mask of another length than the indexed column raises IndexError.
\<close>

definition frost_window :: "array1 \<Rightarrow> bool list" where
  "frost_window c = map2 (\<and>) (map (\<lambda>T. T > - 8) c) (map (\<lambda>T. T < - 3) c)"

definition accumulate_frost :: "frost_crack_2d \<Rightarrow> outcome" where
  "accumulate_frost s =
     (let msk = frost_window (column (temp s) cell_x cell_y) in
      if \<not> in_grid (frostcrackA s) cell_x cell_y then Inl (IndexError, s)
      else if length msk \<noteq> length (column (frostcrackA s) cell_x cell_y)
        then Inl (IndexError, s)
      else Inr (s\<lparr>frostcrackA := set_column (frostcrackA s) cell_x cell_y
                     (masked_add (column (frostcrackA s) cell_x cell_y) msk
                        (1 / (3600 * 24 * 365))),
                  self_x := Some cell_x,
                  self_y := Some cell_y\<rparr>))"

definition run_one_step :: "frost_crack_2d \<Rightarrow> outcome" where
  "run_one_step s =
     (case seed_first_step s of
        Inl err \<Rightarrow> Inl err
      | Inr s1 \<Rightarrow>
         (case assign_boundary s1 of
            Inl err \<Rightarrow> Inl err
          | Inr s2 \<Rightarrow> accumulate_frost (advance_clock (diffuse s2))))"

subsection \<open>The other methods\<close>

text \<open>
  \<open>interp_Ts\<close> reads \<open>self.dem\<close>, which only the \<open>use_dem = False\<close> branch of the
  constructor would set; on every constructed object it raises AttributeError at once.
  The two \<open>calculate_frost_cracking_depth\<close> methods loop over the grid's nodes with
  an empty body.
\<close>

definition interp_Ts :: "frost_crack_2d \<Rightarrow> outcome" where
  "interp_Ts s = Inl (AttributeError, s)"

definition calculate_frost_cracking_depth_Anderson :: "frost_crack_2d \<Rightarrow> outcome" where
  "calculate_frost_cracking_depth_Anderson s = Inr s"

definition calculate_frost_cracking_depth_Hales_Roering :: "frost_crack_2d \<Rightarrow> outcome" where
  "calculate_frost_cracking_depth_Hales_Roering s = Inr s"

datatype method_call =
    Run_one_step
  | Interp_Ts
  | Calculate_Anderson
  | Calculate_Hales_Roering

fun call :: "method_call \<Rightarrow> frost_crack_2d \<Rightarrow> outcome" where
  "call Run_one_step s = run_one_step s"
| "call Interp_Ts s = interp_Ts s"
| "call Calculate_Anderson s = calculate_frost_cracking_depth_Anderson s"
| "call Calculate_Hales_Roering s = calculate_frost_cracking_depth_Hales_Roering s"

text \<open>Any sequence of method calls on one object, each exception caught by the caller:
  the object after the last call.\<close>

fun calls :: "method_call list \<Rightarrow> frost_crack_2d \<Rightarrow> frost_crack_2d" where
  "calls [] s = s"
| "calls (m # ms) s = calls ms (object_after (call m s))"

subsection \<open>The driver loop of the notebook\<close>

text \<open>
  \<open>while fc.current_timestep < len(fc.Ts): ... fc.run_one_step()\<close>; the plotting in
  the loop body reads the object only. An exception of the step ends the loop.
\<close>

function driver_loop :: "frost_crack_2d \<Rightarrow> outcome" where
  "driver_loop s =
     (if current_timestep s < length (Ts s) then
        (case run_one_step s of
           Inl err \<Rightarrow> Inl err
         | Inr s' \<Rightarrow> driver_loop s')
      else Inr s)"
  by pat_completeness auto
termination
  by (relation "measure (\<lambda>s. length (Ts s) - current_timestep s)")
     (auto simp: run_one_step_def seed_first_step_def assign_boundary_def
        accumulate_frost_def advance_clock_def diffuse_def Let_def
        split: sum.splits if_splits)

declare driver_loop.simps [simp del]

text \<open>
  The notebook as a whole: the cell \<open>fc = FROST_CRACK_2D(...)\<close>, then the loop. When
  the constructor raises, no object is bound to \<open>fc\<close> and no step is ever made.
\<close>

definition notebook :: "config \<Rightarrow> (error \<times> frost_crack_2d option) + frost_crack_2d" where
  "notebook cfg =
     (case init cfg of
        Inl e \<Rightarrow> Inl (e, None)
      | Inr fc \<Rightarrow>
         (case driver_loop fc of
            Inl (e, s) \<Rightarrow> Inl (e, Some s)
          | Inr s \<Rightarrow> Inr s))"

subsection \<open>Quantities of the specification\<close>

text \<open>
  The uniform time axis the constructor builds (\<open>tnew\<close>, kept as \<open>self.time\<close>), the
  forcing step \<open>dt_forcing\<close> (the difference of its first two entries) and the largest
  stable step of the specification, \<open>dz\<^sup>2 / (2 * thermal_diffusivity)\<close> with
  \<open>dz = profile_depth / (num_nodes - 1)\<close>.
\<close>

definition forcing_time :: "config \<Rightarrow> array1" where
  "forcing_time cfg =
     np_arange 0 (last (map (\<lambda>v. (v - hd (file_time cfg)) * 24 * 60 * 60) (file_time cfg))) 3600"

definition dt_forcing :: "config \<Rightarrow> real" where
  "dt_forcing cfg = forcing_time cfg ! 1 - forcing_time cfg ! 0"

definition dt_stable :: "config \<Rightarrow> real" where
  "dt_stable cfg =
     (arg_profile_depth cfg / real_of_int (arg_num_nodes cfg - 1))\<^sup>2 /
     (2 * arg_thermal_diffusivity cfg)"

text \<open>
  The configurations with which the constructor gets as far as its stability assertion:
  the DEM branch is taken, the climate record is not empty and has one value per time, and
  neither of the two divisions nor \<open>self.time[1]\<close> raises.
\<close>

definition reaches_stability_check :: "config \<Rightarrow> bool" where
  "reaches_stability_check cfg =
     (arg_use_dem cfg \<and> file_time cfg \<noteq> [] \<and>
      length (file_ts cfg) = length (file_time cfg) \<and>
      arg_num_nodes cfg \<noteq> 1 \<and> arg_thermal_diffusivity cfg \<noteq> 0 \<and>
      2 \<le> length (forcing_time cfg))"

text \<open>A two-axis numpy array has rows of one length.\<close>

definition rectangular :: "array2 \<Rightarrow> bool" where
  "rectangular a = list_all (\<lambda>row. length row = length (hd a)) a"

text \<open>
  An object on which a step at an index inside the forcing series cannot raise: cell
  (500, 400) lies in \<open>temp\<close> and in \<open>frostcrackA\<close>, its two columns are not empty and
  as long as \<open>depth\<close>.
\<close>

definition step_ready :: "frost_crack_2d \<Rightarrow> bool" where
  "step_ready s =
     (in_grid (temp s) cell_x cell_y \<and> in_grid (frostcrackA s) cell_x cell_y \<and>
      column (temp s) cell_x cell_y \<noteq> [] \<and>
      length (column (frostcrackA s) cell_x cell_y) = length (column (temp s) cell_x cell_y) \<and>
      length (depth s) = length (column (temp s) cell_x cell_y))"

text \<open>
  What a method call may change: the column of cell (500, 400) in \<open>temp\<close> and in
  \<open>frostcrackA\<close>, the latter only upwards, and the attributes \<open>Ts_ini\<close>,
  \<open>current_time\<close>, \<open>current_timestep\<close>, \<open>x\<close> and \<open>y\<close>; nothing else.
\<close>

definition step_frame :: "frost_crack_2d \<Rightarrow> frost_crack_2d \<Rightarrow> bool" where
  "step_frame s s' =
     (\<exists>c f ti t k sx sy.
        s' = s\<lparr>temp := set_column (temp s) cell_x cell_y c,
               frostcrackA := set_column (frostcrackA s) cell_x cell_y f,
               Ts_ini := ti, current_time := t, current_timestep := k,
               self_x := sx, self_y := sy\<rparr> \<and>
        list_all2 (\<le>) (column (frostcrackA s) cell_x cell_y) f)"

subsection \<open>An example run\<close>

text \<open>
  A DEM of 501 by 401 cells at 1200 m (mean of all bands 1000 m), a climate record of two
  samples three hours apart (268.15 K and 271.15 K), three depth samples over 40 m, the
  other arguments at their defaults. The hourly axis has three samples, so the driver loop
  makes three steps. \<open>demo_object\<close> is the object the constructor returns,
  \<open>demo_step1\<close>, \<open>demo_step2\<close> and \<open>demo_step3\<close> the object after each step.
\<close>

definition demo_config :: config where
  "demo_config =
     \<lparr> arg_use_dem = True,
       arg_temp_lapse_rate = - 0.006,
       arg_thermal_diffusivity = 1 / 1000000,
       arg_profile_depth = 40,
       arg_geotherm = 0.025,
       arg_num_nodes = 3,
       file_dem_elevation = replicate 501 (replicate 401 1200),
       file_dem_mean = 1000,
       file_time = [0, 0.125],
       file_ts = [268.15, 271.15] \<rparr>"

definition demo_grid :: "array1 \<Rightarrow> array3" where
  "demo_grid c = replicate 501 (replicate 401 c)"

definition demo_object :: frost_crack_2d where
  "demo_object =
     \<lparr> grid_rows = 501, grid_cols = 401,
       elevation = replicate 501 (replicate 401 1200),
       T_ele = 1000,
       Ts_org = [- 5, - 2],
       t_org_start = 0,
       Ts = [- 5, - 4, - 3],
       time = [0, 3600, 7200],
       dz = 20,
       timestep_duration_should = 200000000,
       timestep_duration_is = 3600,
       temp_lapse_rate = - 0.006,
       Ts_ini = - 4,
       Ts0_ele = demo_grid [- 5.2, - 5.2, - 5.2],
       depth = [0, 20, 40],
       temp = demo_grid [- 5.2, - 4.7, - 4.2],
       frostcrackA = demo_grid [0, 0, 0],
       frostcrackHR = demo_grid [0, 0, 0],
       geotherm = 0.025,
       thermal_diffusivity = 1 / 1000000,
       num_nodes = 3,
       current_time = 0,
       current_timestep = 0,
       max_act_layer_depth = 0,
       self_x = None, self_y = None \<rparr>"

definition demo_step1 :: frost_crack_2d where
  "demo_step1 =
     demo_object
       \<lparr> temp := set_column (demo_grid [- 5.2, - 4.7, - 4.2]) 500 400
                  [- 5, - (6000027 / 2000000), - 2.5],
         Ts_ini := - 5,
         current_time := 3600,
         current_timestep := 1,
         frostcrackA := set_column (demo_grid [0, 0, 0]) 500 400
                  [1 / 31536000, 1 / 31536000, 0],
         self_x := Some 500, self_y := Some 400 \<rparr>"

definition demo_step2 :: frost_crack_2d where
  "demo_step2 =
     demo_object
       \<lparr> temp := set_column (demo_grid [- 5.2, - 4.7, - 4.2]) 500 400
                  [- 4, - (3000017999757 / 1000000000000), - 2.5],
         Ts_ini := - 4,
         current_time := 7200,
         current_timestep := 2,
         frostcrackA := set_column (demo_grid [0, 0, 0]) 500 400
                  [2 / 31536000, 2 / 31536000, 0],
         self_x := Some 500, self_y := Some 400 \<rparr>"

definition demo_step3 :: frost_crack_2d where
  "demo_step3 =
     demo_object
       \<lparr> temp := set_column (demo_grid [- 5.2, - 4.7, - 4.2]) 500 400
                  [- 3, - (1500006749716502187 / 500000000000000000), - 2.5],
         Ts_ini := - 3,
         current_time := 10800,
         current_timestep := 3,
         frostcrackA := set_column (demo_grid [0, 0, 0]) 500 400
                  [2 / 31536000, 3 / 31536000, 0],
         self_x := Some 500, self_y := Some 400 \<rparr>"

text \<open>Variants of the example configuration: a profile depth of 0.1 m (the stability
  assertion fails), and the degenerate profiles.\<close>

definition demo_unstable :: config where
  "demo_unstable = demo_config\<lparr>arg_profile_depth := 0.1\<rparr>"

definition demo_no_nodes :: config where
  "demo_no_nodes = demo_config\<lparr>arg_num_nodes := 0\<rparr>"

definition demo_negative_depth :: config where
  "demo_negative_depth = demo_config\<lparr>arg_profile_depth := - 40\<rparr>"

definition demo_one_node :: config where
  "demo_one_node = demo_config\<lparr>arg_num_nodes := 1\<rparr>"

definition demo_minus_one_node :: config where
  "demo_minus_one_node = demo_config\<lparr>arg_num_nodes := - 1\<rparr>"

definition demo_zero_depth :: config where
  "demo_zero_depth = demo_config\<lparr>arg_profile_depth := 0\<rparr>"

section \<open>Lemmas\<close>

subsection \<open>Columns of an array\<close>

lemma column_set_column:
  "in_grid a i j \<Longrightarrow> column (set_column a i j c) i j = c"
  by (simp add: in_grid_def column_def set_column_def)

lemma set_column_other:
  "r \<noteq> i \<or> k \<noteq> j \<Longrightarrow> set_column a i j c ! r ! k = a ! r ! k"
  by (cases "i < length a"; cases "r = i") (auto simp: set_column_def list_update_beyond not_less)

lemma in_grid_set_column:
  "in_grid (set_column a i j c) r k = in_grid a r k"
  by (cases "r = i") (auto simp: in_grid_def set_column_def)

lemma length_set_column: "length (set_column a i j c) = length a"
  by (simp add: set_column_def)

lemma length_row_set_column: "length (set_column a i j c ! r) = length (a ! r)"
  by (cases "i < length a"; cases "r = i") (auto simp: set_column_def list_update_beyond not_less)

lemma set_column_twice:
  "set_column (set_column a i j c) i j c' = set_column a i j c'"
  by (cases "i < length a") (simp_all add: set_column_def list_update_beyond not_less)

subsection \<open>The diffusion update of one column\<close>

lemma length_np_diff: "length (np_diff c) = length c - 1"
  by (simp add: np_diff_def)

lemma nth_np_diff: "Suc i < length c \<Longrightarrow> np_diff c ! i = c ! Suc i - c ! i"
  by (simp add: np_diff_def nth_tl)

lemma length_flux: "length (flux kappa h c) = length c - 1"
  by (simp add: flux_def length_np_diff)

lemma nth_flux:
  "Suc i < length c \<Longrightarrow> flux kappa h c ! i = - kappa * (c ! Suc i - c ! i) / h"
  using nth_np_diff[of i c] by (simp add: flux_def length_np_diff)

lemma length_inner_slice: "length (inner_slice c) = length c - 2"
  by (simp add: inner_slice_def)

lemma nth_inner_slice: "Suc (Suc i) < length c \<Longrightarrow> inner_slice c ! i = c ! Suc i"
  by (simp add: inner_slice_def nth_butlast nth_tl)

lemma length_diffuse_column: "length (diffuse_column kappa h dt c) = length c"
  by (auto simp: diffuse_column_def set_inner_slice_def length_inner_slice length_np_diff length_flux)

lemma diffuse_column_first: "diffuse_column kappa h dt c ! 0 = c ! 0"
  by (cases c) (auto simp: diffuse_column_def set_inner_slice_def)

lemma diffuse_column_last:
  "diffuse_column kappa h dt c ! (length c - 1) = c ! (length c - 1)"
  by (cases "c = []") (auto simp: diffuse_column_def set_inner_slice_def length_inner_slice length_np_diff
      length_flux nth_Cons' nth_append last_conv_nth)

lemma diffuse_column_inner:
  assumes "1 \<le> i" "Suc i < length c"
  shows "diffuse_column kappa h dt c ! i =
           c ! i - dt * (flux kappa h c ! i - flux kappa h c ! (i - 1)) / h"
proof -
  obtain j where j: "i = Suc j" using assms(1) by (cases i) auto
  have len: "\<not> length c < 2" using assms by simp
  have jl: "j < length c - 2" using assms j by simp
  have "diffuse_column kappa h dt c ! i =
          (map2 (\<lambda>T d. T - dt * d / h) (inner_slice c) (np_diff (flux kappa h c))) ! j"
    using len jl j
    by (simp add: diffuse_column_def set_inner_slice_def nth_append length_inner_slice
        length_np_diff length_flux)
  also have "\<dots> = inner_slice c ! j - dt * (np_diff (flux kappa h c) ! j) / h"
    using jl by (simp add: length_inner_slice length_np_diff length_flux)
  also have "inner_slice c ! j = c ! i" using jl j by (simp add: nth_inner_slice)
  also have "np_diff (flux kappa h c) ! j = flux kappa h c ! i - flux kappa h c ! (i - 1)"
    using jl j by (simp add: nth_np_diff length_flux)
  finally show ?thesis .
qed

subsection \<open>The frost window\<close>

lemma length_frost_window: "length (frost_window c) = length c"
  by (simp add: frost_window_def)

lemma nth_frost_window:
  "i < length c \<Longrightarrow> frost_window c ! i = (- 8 < c ! i \<and> c ! i < - 3)"
  by (simp add: frost_window_def)

lemma length_masked_add: "length (masked_add c m v) = min (length c) (length m)"
  by (simp add: masked_add_def)

lemma nth_masked_add:
  "i < length c \<Longrightarrow> i < length m \<Longrightarrow>
     masked_add c m v ! i = (if m ! i then c ! i + v else c ! i)"
  by (simp add: masked_add_def)

subsection \<open>The stages of a step\<close>

lemma seed_first_step_Inr:
  assumes "seed_first_step s = Inr s1"
  shows "current_timestep s \<noteq> 0 \<and> s1 = s \<or>
         current_timestep s = 0 \<and> in_grid (temp s) cell_x cell_y \<and>
         (\<exists>v. broadcast_to (length (column (temp s) cell_x cell_y))
                 (map (\<lambda>d. np_mean (Ts_org s) + geotherm s * d) (depth s)) = Inr v \<and>
              s1 = s\<lparr>temp := set_column (temp s) cell_x cell_y v\<rparr>)"
  using assms by (auto simp: seed_first_step_def Let_def split: if_splits sum.splits)

lemma broadcast_to_length: "broadcast_to n v = Inr w \<Longrightarrow> length w = n"
  by (auto simp: broadcast_to_def split: if_splits)

lemma assign_boundary_Inr:
  assumes "assign_boundary s = Inr s2"
  shows "current_timestep s < length (Ts s) \<and> in_grid (temp s) cell_x cell_y \<and>
         column (temp s) cell_x cell_y \<noteq> [] \<and>
         s2 = s\<lparr>Ts_ini := Ts s ! current_timestep s,
                temp := set_column (temp s) cell_x cell_y
                  ((column (temp s) cell_x cell_y)[0 := Ts s ! current_timestep s])\<rparr>"
  using assms by (auto simp: assign_boundary_def Let_def split: if_splits)

lemma accumulate_frost_Inr:
  assumes "accumulate_frost s = Inr s'"
  shows "in_grid (frostcrackA s) cell_x cell_y \<and>
         length (column (frostcrackA s) cell_x cell_y) = length (column (temp s) cell_x cell_y) \<and>
         s' = s\<lparr>frostcrackA := set_column (frostcrackA s) cell_x cell_y
                  (masked_add (column (frostcrackA s) cell_x cell_y)
                     (frost_window (column (temp s) cell_x cell_y)) (1 / (3600 * 24 * 365))),
                self_x := Some cell_x, self_y := Some cell_y\<rparr>"
  using assms by (auto simp: accumulate_frost_def Let_def length_frost_window split: if_splits)

lemma run_one_step_Inr:
  assumes "run_one_step s = Inr s'"
  obtains c0 where
    "current_timestep s \<noteq> 0 \<and> c0 = column (temp s) cell_x cell_y \<or>
     current_timestep s = 0 \<and>
       broadcast_to (length (column (temp s) cell_x cell_y))
         (map (\<lambda>d. np_mean (Ts_org s) + geotherm s * d) (depth s)) = Inr c0"
    "length c0 = length (column (temp s) cell_x cell_y)"
    "c0 \<noteq> []"
    "in_grid (temp s) cell_x cell_y"
    "current_timestep s < length (Ts s)"
    "in_grid (frostcrackA s) cell_x cell_y"
    "length (column (frostcrackA s) cell_x cell_y) = length c0"
    "s' = s\<lparr>temp := set_column (temp s) cell_x cell_y
                 (diffuse_column (thermal_diffusivity s) (dz s) (timestep_duration_is s)
                    (c0[0 := Ts s ! current_timestep s])),
              Ts_ini := Ts s ! current_timestep s,
              current_time := current_time s + timestep_duration_is s,
              current_timestep := current_timestep s + 1,
              frostcrackA := set_column (frostcrackA s) cell_x cell_y
                 (masked_add (column (frostcrackA s) cell_x cell_y)
                    (frost_window
                       (diffuse_column (thermal_diffusivity s) (dz s) (timestep_duration_is s)
                          (c0[0 := Ts s ! current_timestep s])))
                    (1 / (3600 * 24 * 365))),
              self_x := Some cell_x, self_y := Some cell_y\<rparr>"
proof -
  from assms obtain s1 s2 where
    s1: "seed_first_step s = Inr s1" and
    s2: "assign_boundary s1 = Inr s2" and
    s3: "accumulate_frost (advance_clock (diffuse s2)) = Inr s'"
    by (auto simp: run_one_step_def split: sum.splits)
  note b = assign_boundary_Inr[OF s2]
  note a = accumulate_frost_Inr[OF s3]
  from seed_first_step_Inr[OF s1] show thesis
  proof (elim disjE conjE exE)
    assume k: "current_timestep s \<noteq> 0" and e: "s1 = s"
    show thesis
      apply (rule that[of "column (temp s) cell_x cell_y"])
      using k e b a
             apply (simp_all add: diffuse_def advance_clock_def column_set_column
          in_grid_set_column length_diffuse_column set_column_twice)
      done
  next
    fix v
    assume k: "current_timestep s = 0" and g: "in_grid (temp s) cell_x cell_y"
      and v: "broadcast_to (length (column (temp s) cell_x cell_y))
                (map (\<lambda>d. np_mean (Ts_org s) + geotherm s * d) (depth s)) = Inr v"
      and e: "s1 = s\<lparr>temp := set_column (temp s) cell_x cell_y v\<rparr>"
    have lv: "length v = length (column (temp s) cell_x cell_y)"
      using broadcast_to_length[OF v] .
    show thesis
      apply (rule that[of v])
      using k g v e lv b a
             apply (simp_all add: diffuse_def advance_clock_def column_set_column
          in_grid_set_column length_diffuse_column set_column_twice)
      done
  qed
qed

subsection \<open>The frame of a method call\<close>

lemma set_column_same: "set_column a i j (column a i j) = a"
  by (simp add: set_column_def column_def)

lemma set_column_outside: "\<not> in_grid a i j \<Longrightarrow> set_column a i j c = a"
  by (cases "i < length a") (simp_all add: set_column_def in_grid_def list_update_beyond not_less)

lemma step_frameI:
  assumes "s' = s\<lparr>temp := set_column (temp s) cell_x cell_y c,
               frostcrackA := set_column (frostcrackA s) cell_x cell_y f,
               Ts_ini := ti, current_time := t, current_timestep := k,
               self_x := sx, self_y := sy\<rparr>"
    and "list_all2 (\<le>) (column (frostcrackA s) cell_x cell_y) f"
  shows "step_frame s s'"
  unfolding step_frame_def using assms by blast

lemma list_all2_le_refl: "list_all2 (\<le>) (c :: real list) c"
  by (simp add: list_all2_same)

lemma step_frame_refl: "step_frame s s"
  by (rule step_frameI[where c = "column (temp s) cell_x cell_y"
        and f = "column (frostcrackA s) cell_x cell_y" and ti = "Ts_ini s"
        and t = "current_time s" and k = "current_timestep s"
        and sx = "self_x s" and sy = "self_y s"])
     (simp_all add: set_column_same list_all2_le_refl)

lemma step_frame_temp:
  "step_frame s (s\<lparr>temp := set_column (temp s) cell_x cell_y c\<rparr>)"
  by (rule step_frameI[where c = c
        and f = "column (frostcrackA s) cell_x cell_y" and ti = "Ts_ini s"
        and t = "current_time s" and k = "current_timestep s"
        and sx = "self_x s" and sy = "self_y s"])
     (simp_all add: set_column_same list_all2_le_refl)

lemma step_frame_trans:
  assumes "step_frame s s1" "step_frame s1 s2"
  shows "step_frame s s2"
proof -
  from assms(1) obtain c f ti t k sx sy where
    1: "s1 = s\<lparr>temp := set_column (temp s) cell_x cell_y c,
               frostcrackA := set_column (frostcrackA s) cell_x cell_y f,
               Ts_ini := ti, current_time := t, current_timestep := k,
               self_x := sx, self_y := sy\<rparr>"
    and f: "list_all2 (\<le>) (column (frostcrackA s) cell_x cell_y) f"
    unfolding step_frame_def by blast
  from assms(2) obtain c' f' ti' t' k' sx' sy' where
    2: "s2 = s1\<lparr>temp := set_column (temp s1) cell_x cell_y c',
               frostcrackA := set_column (frostcrackA s1) cell_x cell_y f',
               Ts_ini := ti', current_time := t', current_timestep := k',
               self_x := sx', self_y := sy'\<rparr>"
    and f': "list_all2 (\<le>) (column (frostcrackA s1) cell_x cell_y) f'"
    unfolding step_frame_def by blast
  have le: "list_all2 (\<le>) (column (frostcrackA s) cell_x cell_y) f'"
  proof (cases "in_grid (frostcrackA s) cell_x cell_y")
    case True
    then have "column (frostcrackA s1) cell_x cell_y = f"
      using 1 by (simp add: column_set_column)
    with f f' show ?thesis
      by (auto elim: list_all2_trans[rotated])
  next
    case False
    then have "frostcrackA s1 = frostcrackA s"
      using 1 by (simp add: set_column_outside)
    with f' show ?thesis by simp
  qed
  show ?thesis
    by (rule step_frameI[where c = c' and f = f' and ti = ti' and t = t' and k = k'
          and sx = sx' and sy = sy'])
       (simp_all add: 1 2 set_column_twice le)
qed

lemma masked_add_grows:
  assumes "length m = length c" "0 \<le> v"
  shows "list_all2 (\<le>) c (masked_add c m v)"
  using assms by (auto simp: list_all2_conv_all_nth length_masked_add nth_masked_add)

lemma step_frame_seed: "step_frame s (object_after (seed_first_step s))"
  by (auto simp: seed_first_step_def object_after_def Let_def step_frame_refl step_frame_temp
      split: sum.splits)

lemma step_frame_boundary: "step_frame s (object_after (assign_boundary s))"
proof -
  have 1: "step_frame s (s\<lparr>Ts_ini := ti\<rparr>)" for ti
    by (rule step_frameI[where c = "column (temp s) cell_x cell_y"
        and f = "column (frostcrackA s) cell_x cell_y" and ti = ti
        and t = "current_time s" and k = "current_timestep s"
        and sx = "self_x s" and sy = "self_y s"])
      (simp_all add: set_column_same list_all2_le_refl)
  have 2: "step_frame s (s\<lparr>Ts_ini := ti, temp := set_column (temp s) cell_x cell_y c\<rparr>)" for ti c
    by (rule step_frameI[where c = c
        and f = "column (frostcrackA s) cell_x cell_y" and ti = ti
        and t = "current_time s" and k = "current_timestep s"
        and sx = "self_x s" and sy = "self_y s"])
      (simp_all add: set_column_same list_all2_le_refl)
  show ?thesis
    by (auto simp: assign_boundary_def object_after_def Let_def step_frame_refl 1 2)
qed

lemma step_frame_diffuse: "step_frame s (diffuse s)"
  by (simp add: diffuse_def step_frame_temp)

lemma step_frame_clock: "step_frame s (advance_clock s)"
  unfolding advance_clock_def
  by (rule step_frameI[where c = "column (temp s) cell_x cell_y"
        and f = "column (frostcrackA s) cell_x cell_y" and ti = "Ts_ini s"
        and t = "current_time s + timestep_duration_is s" and k = "current_timestep s + 1"
        and sx = "self_x s" and sy = "self_y s"])
     (simp_all add: set_column_same list_all2_le_refl)

lemma step_frame_accumulate: "step_frame s (object_after (accumulate_frost s))"
proof (cases "accumulate_frost s")
  case (Inl a)
  then have "object_after (accumulate_frost s) = s"
    by (auto simp: accumulate_frost_def object_after_def Let_def split: if_splits)
  then show ?thesis by (simp add: step_frame_refl)
next
  case (Inr s')
  note a = accumulate_frost_Inr[OF Inr]
  have "step_frame s s'"
    by (rule step_frameI[where c = "column (temp s) cell_x cell_y"
        and f = "masked_add (column (frostcrackA s) cell_x cell_y)
                     (frost_window (column (temp s) cell_x cell_y)) (1 / (3600 * 24 * 365))"
        and ti = "Ts_ini s"
        and t = "current_time s" and k = "current_timestep s"
        and sx = "Some cell_x" and sy = "Some cell_y"])
      (use a in \<open>simp_all add: set_column_same masked_add_grows length_frost_window\<close>)
  then show ?thesis using Inr by (simp add: object_after_def)
qed

lemma step_frame_run_one_step: "step_frame s (object_after (run_one_step s))"
proof (cases "seed_first_step s")
  case (Inl a)
  then have "object_after (run_one_step s) = object_after (seed_first_step s)"
    by (simp add: run_one_step_def object_after_def)
  then show ?thesis by (simp add: step_frame_seed)
next
  case s1: (Inr s1)
  then have f1: "step_frame s s1"
    using step_frame_seed[of s] by (simp add: object_after_def)
  show ?thesis
  proof (cases "assign_boundary s1")
    case (Inl a)
    then have "object_after (run_one_step s) = object_after (assign_boundary s1)"
      using s1 by (simp add: run_one_step_def object_after_def)
    then show ?thesis using f1 step_frame_boundary[of s1] by (auto intro: step_frame_trans)
  next
    case s2: (Inr s2)
    then have f2: "step_frame s1 s2"
      using step_frame_boundary[of s1] by (simp add: object_after_def)
    have e: "object_after (run_one_step s) =
             object_after (accumulate_frost (advance_clock (diffuse s2)))"
      using s1 s2 by (simp add: run_one_step_def)
    have "step_frame s2 (object_after (accumulate_frost (advance_clock (diffuse s2))))"
      by (blast intro: step_frame_trans step_frame_diffuse step_frame_clock
          step_frame_accumulate)
    with f1 f2 e show ?thesis by (auto intro: step_frame_trans)
  qed
qed

lemma step_frame_call: "step_frame s (object_after (call m s))"
proof (cases m)
  case Run_one_step
  then show ?thesis by (simp add: step_frame_run_one_step)
qed (simp_all add: interp_Ts_def calculate_frost_cracking_depth_Anderson_def
        calculate_frost_cracking_depth_Hales_Roering_def object_after_def step_frame_refl)

lemma step_frame_calls: "step_frame s (calls ms s)"
proof (induction ms arbitrary: s)
  case Nil
  show ?case by (simp add: step_frame_refl)
next
  case (Cons m ms)
  show ?case
    using step_frame_call[of s m] Cons.IH[of "object_after (call m s)"]
    by (auto intro: step_frame_trans)
qed

subsection \<open>What the frame gives\<close>

lemma step_frame_static:
  assumes "step_frame s s'"
  shows "Ts s' = Ts s" "Ts_org s' = Ts_org s" "depth s' = depth s" "dz s' = dz s"
    "thermal_diffusivity s' = thermal_diffusivity s"
    "timestep_duration_is s' = timestep_duration_is s"
    "geotherm s' = geotherm s" "frostcrackHR s' = frostcrackHR s"
    "num_nodes s' = num_nodes s" "time s' = time s"
  using assms by (auto simp: step_frame_def)

lemma step_frame_other_cells:
  assumes "step_frame s s'" "r \<noteq> cell_x \<or> c \<noteq> cell_y"
  shows "temp s' ! r ! c = temp s ! r ! c" "frostcrackA s' ! r ! c = frostcrackA s ! r ! c"
  using assms by (auto simp: step_frame_def set_column_other)

lemma step_frame_shape:
  assumes "step_frame s s'"
  shows "length (temp s') = length (temp s)" "length (temp s' ! r) = length (temp s ! r)"
    "length (frostcrackA s') = length (frostcrackA s)"
    "length (frostcrackA s' ! r) = length (frostcrackA s ! r)"
    "length (frostcrackA s' ! r ! c) = length (frostcrackA s ! r ! c)"
proof -
  from assms obtain cc f ti t k sx sy where
    1: "s' = s\<lparr>temp := set_column (temp s) cell_x cell_y cc,
               frostcrackA := set_column (frostcrackA s) cell_x cell_y f,
               Ts_ini := ti, current_time := t, current_timestep := k,
               self_x := sx, self_y := sy\<rparr>"
    and f: "list_all2 (\<le>) (column (frostcrackA s) cell_x cell_y) f"
    unfolding step_frame_def by blast
  show "length (temp s') = length (temp s)" "length (temp s' ! r) = length (temp s ! r)"
    "length (frostcrackA s') = length (frostcrackA s)"
    "length (frostcrackA s' ! r) = length (frostcrackA s ! r)"
    by (simp_all add: 1 length_set_column length_row_set_column)
  show "length (frostcrackA s' ! r ! c) = length (frostcrackA s ! r ! c)"
  proof (cases "r = cell_x \<and> c = cell_y \<and> in_grid (frostcrackA s) cell_x cell_y")
    case True
    then have "frostcrackA s' ! r ! c = f"
      using column_set_column[of "frostcrackA s" cell_x cell_y f] by (simp add: 1 column_def)
    then show ?thesis using f True by (simp add: list_all2_lengthD column_def)
  next
    case False
    then show ?thesis
      using set_column_outside[of "frostcrackA s" cell_x cell_y f]
        set_column_other[of r cell_x c cell_y "frostcrackA s" f]
      by (auto simp: 1)
  qed
qed

lemma step_frame_mono:
  assumes "step_frame s s'"
    and "r < length (frostcrackA s)" "c < length (frostcrackA s ! r)"
    and "i < length (frostcrackA s ! r ! c)"
  shows "frostcrackA s ! r ! c ! i \<le> frostcrackA s' ! r ! c ! i"
proof -
  from assms(1) obtain cc f ti t k sx sy where
    1: "s' = s\<lparr>temp := set_column (temp s) cell_x cell_y cc,
               frostcrackA := set_column (frostcrackA s) cell_x cell_y f,
               Ts_ini := ti, current_time := t, current_timestep := k,
               self_x := sx, self_y := sy\<rparr>"
    and f: "list_all2 (\<le>) (column (frostcrackA s) cell_x cell_y) f"
    unfolding step_frame_def by blast
  show ?thesis
  proof (cases "r = cell_x \<and> c = cell_y")
    case True
    then have g: "in_grid (frostcrackA s) cell_x cell_y"
      using assms(2,3) by (simp add: in_grid_def)
    then have "frostcrackA s' ! r ! c = f"
      using True column_set_column[of "frostcrackA s" cell_x cell_y f] by (simp add: 1 column_def)
    moreover have "column (frostcrackA s) cell_x cell_y ! i \<le> f ! i"
      using f assms(4) True by (auto simp: list_all2_conv_all_nth column_def)
    ultimately show ?thesis using True by (simp add: column_def)
  next
    case False
    then show ?thesis
      using set_column_other[of r cell_x c cell_y "frostcrackA s" f] by (auto simp: 1)
  qed
qed

subsection \<open>The constructor\<close>

lemma length_np_arange: "length (np_arange a b st) = nat \<lceil>(b - a) / st\<rceil>"
  by (simp add: np_arange_def)

lemma nth_np_arange:
  "i < length (np_arange a b st) \<Longrightarrow> np_arange a b st ! i = a + real i * st"
  by (simp add: np_arange_def)

lemma dt_forcing_hourly:
  assumes "2 \<le> length (forcing_time cfg)"
  shows "dt_forcing cfg = 3600"
proof -
  have "0 < length (forcing_time cfg)" "1 < length (forcing_time cfg)"
    using assms by auto
  then have "forcing_time cfg ! 0 = 0" "forcing_time cfg ! 1 = 3600"
    unfolding forcing_time_def by (simp_all add: nth_np_arange)
  then show ?thesis by (simp add: dt_forcing_def)
qed

lemma np_interp_length: "np_interp xs xp fp = Inr ys \<Longrightarrow> length ys = length xs"
  by (auto simp: np_interp_def split: if_splits)

lemma np_interp_Inr_iff:
  "(\<exists>ys. np_interp xs xp fp = Inr ys) \<longleftrightarrow> xp \<noteq> [] \<and> length fp = length xp"
  by (auto simp: np_interp_def)

lemma np_linspace_Inr:
  assumes "np_linspace a b n = Inr ys" "n \<noteq> 1"
  shows "0 \<le> n" "ys = map (\<lambda>i. a + real i * ((b - a) / real_of_int (n - 1))) [0 ..< nat n]"
  using assms by (auto simp: np_linspace_def split: if_splits)

lemma init_Inr_record:
  assumes "init cfg = Inr s"
  shows "\<exists>Ts_new depth'.
    arg_use_dem cfg \<and> file_time cfg \<noteq> [] \<and>
    np_interp (forcing_time cfg)
      (map (\<lambda>v. (v - hd (file_time cfg)) * 24 * 60 * 60) (file_time cfg))
      (map (\<lambda>v. v - 273.15) (file_ts cfg)) = Inr Ts_new \<and>
    arg_num_nodes cfg \<noteq> 1 \<and> arg_thermal_diffusivity cfg \<noteq> 0 \<and>
    2 \<le> length (forcing_time cfg) \<and>
    dt_forcing cfg < dt_stable cfg \<and>
    0 \<le> arg_num_nodes cfg \<and>
    np_linspace 0 (arg_profile_depth cfg) (arg_num_nodes cfg) = Inr depth' \<and>
    s = \<lparr> grid_rows = length (file_dem_elevation cfg),
          grid_cols = (if file_dem_elevation cfg = [] then 0
                       else length (hd (file_dem_elevation cfg))),
          elevation = file_dem_elevation cfg,
          T_ele = file_dem_mean cfg,
          Ts_org = map (\<lambda>v. v - 273.15) (file_ts cfg),
          t_org_start = hd (file_time cfg),
          Ts = Ts_new,
          time = forcing_time cfg,
          dz = arg_profile_depth cfg / real_of_int (arg_num_nodes cfg - 1),
          timestep_duration_should = dt_stable cfg,
          timestep_duration_is = dt_forcing cfg,
          temp_lapse_rate = arg_temp_lapse_rate cfg,
          Ts_ini = np_mean Ts_new,
          Ts0_ele = map (map (\<lambda>v. replicate (nat (arg_num_nodes cfg)) v))
                      (map (map (\<lambda>e. np_mean Ts_new +
                            arg_temp_lapse_rate cfg * (e - file_dem_mean cfg)))
                            (file_dem_elevation cfg)),
          depth = depth',
          temp = array3_add
                   (map (map (\<lambda>v. replicate (nat (arg_num_nodes cfg)) v))
                      (map (map (\<lambda>e. np_mean Ts_new +
                            arg_temp_lapse_rate cfg * (e - file_dem_mean cfg)))
                            (file_dem_elevation cfg)))
                   (replicate (length (file_dem_elevation cfg))
                      (replicate (if file_dem_elevation cfg = [] then 0
                                  else length (hd (file_dem_elevation cfg)))
                         (map (\<lambda>d. arg_geotherm cfg * d) depth'))),
          frostcrackA = zeros_like (array3_add
                   (map (map (\<lambda>v. replicate (nat (arg_num_nodes cfg)) v))
                      (map (map (\<lambda>e. np_mean Ts_new +
                            arg_temp_lapse_rate cfg * (e - file_dem_mean cfg)))
                            (file_dem_elevation cfg)))
                   (replicate (length (file_dem_elevation cfg))
                      (replicate (if file_dem_elevation cfg = [] then 0
                                  else length (hd (file_dem_elevation cfg)))
                         (map (\<lambda>d. arg_geotherm cfg * d) depth')))),
          frostcrackHR = zeros_like (array3_add
                   (map (map (\<lambda>v. replicate (nat (arg_num_nodes cfg)) v))
                      (map (map (\<lambda>e. np_mean Ts_new +
                            arg_temp_lapse_rate cfg * (e - file_dem_mean cfg)))
                            (file_dem_elevation cfg)))
                   (replicate (length (file_dem_elevation cfg))
                      (replicate (if file_dem_elevation cfg = [] then 0
                                  else length (hd (file_dem_elevation cfg)))
                         (map (\<lambda>d. arg_geotherm cfg * d) depth')))),
          geotherm = arg_geotherm cfg,
          thermal_diffusivity = arg_thermal_diffusivity cfg,
          num_nodes = arg_num_nodes cfg,
          current_time = 0,
          current_timestep = 0,
          max_act_layer_depth = 0,
          self_x = None,
          self_y = None \<rparr>"
  using assms
  unfolding init_def Let_def forcing_time_def[symmetric] dt_forcing_def[symmetric]
    dt_stable_def power2_eq_square
  by (simp split: if_splits sum.splits del: map_map add: not_less)

subsection \<open>The example run, evaluated\<close>

lemma demo_forcing_time: "forcing_time demo_config = [0, 3600, 7200]"
  by (simp add: forcing_time_def demo_config_def np_arange_def numeral_3_eq_3)

lemma demo_interp:
  "np_interp [0, 3600, 7200] [0, 10800] [- 5, - 2] = Inr [- 5, - 4, - 3]"
  by (simp add: np_interp_def)

lemma init_demo: "init demo_config = Inr demo_object"
  unfolding init_def Let_def forcing_time_def[symmetric] demo_forcing_time
  by (simp add: demo_config_def demo_object_def demo_grid_def np_interp_def np_linspace_def np_mean_def
     array3_add_def zeros_like_def numeral_3_eq_3)

lemma demo_in_grid: "in_grid (demo_grid c) 500 400"
  by (simp add: in_grid_def demo_grid_def)

lemma demo_column: "column (demo_grid c) 500 400 = c"
  by (simp add: column_def demo_grid_def)

lemmas demo_simps =
  run_one_step_def seed_first_step_def assign_boundary_def diffuse_def advance_clock_def
  accumulate_frost_def Let_def cell_x_def cell_y_def broadcast_to_def np_mean_def
  diffuse_column_def flux_def np_diff_def inner_slice_def set_inner_slice_def
  frost_window_def masked_add_def
  demo_in_grid demo_column in_grid_set_column column_set_column set_column_twice

lemma run_demo_object: "run_one_step demo_object = Inr demo_step1"
  by (simp add: demo_object_def demo_step1_def demo_simps)

lemma run_demo_step1: "run_one_step demo_step1 = Inr demo_step2"
  by (simp add: demo_object_def demo_step1_def demo_step2_def demo_simps)

lemma run_demo_step2: "run_one_step demo_step2 = Inr demo_step3"
  by (simp add: demo_object_def demo_step2_def demo_step3_def demo_simps)

lemma run_demo_step3: "run_one_step demo_step3 = Inl (IndexError, demo_step3)"
  by (simp add: demo_object_def demo_step3_def demo_simps)

lemma driver_demo: "driver_loop demo_object = Inr demo_step3"
proof -
  have "driver_loop demo_step3 = Inr demo_step3"
    by (subst driver_loop.simps) (simp add: demo_step3_def demo_object_def)
  then have "driver_loop demo_step2 = Inr demo_step3"
    by (subst driver_loop.simps) (simp add: run_demo_step2, simp add: demo_step2_def demo_object_def)
  then have "driver_loop demo_step1 = Inr demo_step3"
    by (subst driver_loop.simps) (simp add: run_demo_step1, simp add: demo_step1_def demo_object_def)
  then show ?thesis
    by (subst driver_loop.simps) (simp add: run_demo_object, simp add: demo_object_def)
qed

subsection \<open>The frost index after a successful step\<close>

lemma frost_increment:
  assumes "run_one_step s = Inr s'" "i < length (column (temp s') cell_x cell_y)"
  shows "column (frostcrackA s') cell_x cell_y ! i =
           column (frostcrackA s) cell_x cell_y ! i +
           (if - 8 < column (temp s') cell_x cell_y ! i \<and> column (temp s') cell_x cell_y ! i < - 3
            then 1 / (3600 * 24 * 365) else 0)"
proof -
  from assms(1) obtain c0 where
    l0: "length c0 = length (column (temp s) cell_x cell_y)" and
    g: "in_grid (temp s) cell_x cell_y" and
    gA: "in_grid (frostcrackA s) cell_x cell_y" and
    lA: "length (column (frostcrackA s) cell_x cell_y) = length c0" and
    s': "s' = s\<lparr>temp := set_column (temp s) cell_x cell_y
                 (diffuse_column (thermal_diffusivity s) (dz s) (timestep_duration_is s)
                    (c0[0 := Ts s ! current_timestep s])),
              Ts_ini := Ts s ! current_timestep s,
              current_time := current_time s + timestep_duration_is s,
              current_timestep := current_timestep s + 1,
              frostcrackA := set_column (frostcrackA s) cell_x cell_y
                 (masked_add (column (frostcrackA s) cell_x cell_y)
                    (frost_window
                       (diffuse_column (thermal_diffusivity s) (dz s) (timestep_duration_is s)
                          (c0[0 := Ts s ! current_timestep s])))
                    (1 / (3600 * 24 * 365))),
              self_x := Some cell_x, self_y := Some cell_y\<rparr>"
    by (rule run_one_step_Inr)
  let ?new = "diffuse_column (thermal_diffusivity s) (dz s) (timestep_duration_is s)
                    (c0[0 := Ts s ! current_timestep s])"
  have t: "column (temp s') cell_x cell_y = ?new"
    using g by (simp add: s' column_set_column)
  have f: "column (frostcrackA s') cell_x cell_y =
             masked_add (column (frostcrackA s) cell_x cell_y) (frost_window ?new)
               (1 / (3600 * 24 * 365))"
    using gA by (simp add: s' column_set_column)
  have i: "i < length c0" using assms(2) t by (simp add: length_diffuse_column)
  show ?thesis
    unfolding f t using i lA
    by (simp add: nth_masked_add nth_frost_window length_frost_window length_diffuse_column)
qed

subsection \<open>The constructor's object, field by field\<close>

lemma calls_append: "calls (ms @ ms') s = calls ms' (calls ms s)"
  by (induction ms arbitrary: s) simp_all

lemma zeros_like_nth:
  assumes "r < length (zeros_like a)" "c < length (zeros_like a ! r)"
    "i < length (zeros_like a ! r ! c)"
  shows "zeros_like a ! r ! c ! i = 0"
  using assms by (simp add: zeros_like_def)

lemma init_Inr:
  assumes "init cfg = Inr s"
  shows "arg_use_dem cfg" "file_time cfg \<noteq> []"
    "length (file_ts cfg) = length (file_time cfg)"
    "arg_num_nodes cfg \<noteq> 1" "0 \<le> arg_num_nodes cfg"
    "arg_thermal_diffusivity cfg \<noteq> 0"
    "2 \<le> length (forcing_time cfg)"
    "dt_forcing cfg < dt_stable cfg"
    "time s = forcing_time cfg"
    "length (Ts s) = length (forcing_time cfg)"
    "Ts_org s = map (\<lambda>v. v - 273.15) (file_ts cfg)"
    "dz s = arg_profile_depth cfg / real_of_int (arg_num_nodes cfg - 1)"
    "timestep_duration_should s = dt_stable cfg"
    "timestep_duration_is s = dt_forcing cfg"
    "np_linspace 0 (arg_profile_depth cfg) (arg_num_nodes cfg) = Inr (depth s)"
    "Ts_ini s = np_mean (Ts s)"
    "Ts0_ele s = map (map (\<lambda>v. replicate (nat (arg_num_nodes cfg)) v))
                      (map (map (\<lambda>e. Ts_ini s +
                            arg_temp_lapse_rate cfg * (e - file_dem_mean cfg)))
                            (file_dem_elevation cfg))"
    "temp s = array3_add (Ts0_ele s)
                (replicate (length (file_dem_elevation cfg))
                   (replicate (if file_dem_elevation cfg = [] then 0
                               else length (hd (file_dem_elevation cfg)))
                      (map (\<lambda>d. arg_geotherm cfg * d) (depth s))))"
    "frostcrackA s = zeros_like (temp s)" "frostcrackHR s = zeros_like (temp s)"
    "current_timestep s = 0" "current_time s = 0"
    "geotherm s = arg_geotherm cfg" "thermal_diffusivity s = arg_thermal_diffusivity cfg"
    "num_nodes s = arg_num_nodes cfg" "elevation s = file_dem_elevation cfg"
    "T_ele s = file_dem_mean cfg" "temp_lapse_rate s = arg_temp_lapse_rate cfg"
  using init_Inr_record[OF assms]
  by (auto simp: np_interp_def simp del: map_map split: if_splits)

subsection \<open>The end of the forcing series\<close>

lemma run_one_step_at_end:
  assumes "current_timestep s = length (Ts s)" "current_timestep s \<noteq> 0"
  shows "run_one_step s = Inl (IndexError, s)"
  using assms by (simp add: run_one_step_def seed_first_step_def assign_boundary_def)

lemma run_one_step_Inr_clock:
  assumes "run_one_step s = Inr s'"
  shows "current_timestep s' = Suc (current_timestep s)" "Ts s' = Ts s"
    "current_timestep s < length (Ts s)"
    "s' = object_after (call Run_one_step s)"
proof -
  from assms obtain c0 where
    k: "current_timestep s < length (Ts s)" and
    s': "s' = s\<lparr>temp := set_column (temp s) cell_x cell_y
                 (diffuse_column (thermal_diffusivity s) (dz s) (timestep_duration_is s)
                    (c0[0 := Ts s ! current_timestep s])),
              Ts_ini := Ts s ! current_timestep s,
              current_time := current_time s + timestep_duration_is s,
              current_timestep := current_timestep s + 1,
              frostcrackA := set_column (frostcrackA s) cell_x cell_y
                 (masked_add (column (frostcrackA s) cell_x cell_y)
                    (frost_window
                       (diffuse_column (thermal_diffusivity s) (dz s) (timestep_duration_is s)
                          (c0[0 := Ts s ! current_timestep s])))
                    (1 / (3600 * 24 * 365))),
              self_x := Some cell_x, self_y := Some cell_y\<rparr>"
    by (rule run_one_step_Inr)
  show "current_timestep s' = Suc (current_timestep s)" "Ts s' = Ts s"
    by (simp_all add: s')
  show "current_timestep s < length (Ts s)" by (rule k)
  show "s' = object_after (call Run_one_step s)" using assms by (simp add: object_after_def)
qed

lemma driver_loop_Inr:
  assumes "driver_loop s = Inr s'" "current_timestep s \<le> length (Ts s)"
  shows "current_timestep s' = length (Ts s') \<and> Ts s' = Ts s \<and>
         (\<exists>n. s' = calls (replicate n Run_one_step) s)"
  using assms
proof (induction s rule: driver_loop.induct)
  case (1 s)
  show ?case
  proof (cases "current_timestep s < length (Ts s)")
    case False
    then have "s' = s" using "1.prems"(1) by (simp add: driver_loop.simps)
    moreover have "s = calls (replicate 0 Run_one_step) s" by simp
    ultimately show ?thesis using False "1.prems"(2) by (metis le_neq_implies_less)
  next
    case True
    then obtain s1 where s1: "run_one_step s = Inr s1" and d: "driver_loop s1 = Inr s'"
      using "1.prems"(1) by (subst (asm) driver_loop.simps) (auto split: sum.splits)
    note c = run_one_step_Inr_clock[OF s1]
    have "current_timestep s1 \<le> length (Ts s1)" using c True by simp
    from "1.IH"[OF True s1 d this] obtain n where
      e: "current_timestep s' = length (Ts s')" "Ts s' = Ts s1"
        "s' = calls (replicate n Run_one_step) s1"
      by blast
    have "s' = calls (replicate (Suc n) Run_one_step) s"
      using e(3) c(4) by simp
    then show ?thesis using e c by metis
  qed
qed

lemma calls_Ts: "Ts (calls ms s) = Ts s"
  using step_frame_static(1)[OF step_frame_calls] .

subsection \<open>The stability assertion\<close>

lemma init_at_stability_check:
  assumes "reaches_stability_check cfg"
  shows "dt_stable cfg \<le> dt_forcing cfg \<and> init cfg = Inl AssertionError \<or>
         dt_forcing cfg < dt_stable cfg \<and> init cfg \<noteq> Inl AssertionError"
proof -
  let ?t = "map (\<lambda>v. (v - hd (file_time cfg)) * 24 * 60 * 60) (file_time cfg)"
  from assms have i: "\<exists>ys. np_interp (forcing_time cfg) ?t
      (map (\<lambda>v. v - 273.15) (file_ts cfg)) = Inr ys"
    by (simp add: np_interp_Inr_iff reaches_stability_check_def)
  then obtain ys where ys: "np_interp (forcing_time cfg) ?t
      (map (\<lambda>v. v - 273.15) (file_ts cfg)) = Inr ys" ..
  show ?thesis
  proof (cases "dt_forcing cfg < dt_stable cfg")
    case False
    then have "init cfg = Inl AssertionError"
      using assms ys
      unfolding init_def Let_def forcing_time_def[symmetric] dt_forcing_def[symmetric]
        reaches_stability_check_def
      by (simp add: dt_stable_def power2_eq_square not_less)
    then show ?thesis using False by simp
  next
    case True
    then have "init cfg \<noteq> Inl AssertionError"
      using assms ys
      unfolding init_def Let_def forcing_time_def[symmetric] dt_forcing_def[symmetric]
        reaches_stability_check_def
      by (simp add: dt_stable_def power2_eq_square not_less np_linspace_def split: sum.splits)
    then show ?thesis using True by simp
  qed
qed

lemma init_Inr_reaches: "init cfg = Inr s \<Longrightarrow> reaches_stability_check cfg"
  using init_Inr(1-7)[of cfg s] by (simp add: reaches_stability_check_def)

lemma init_fails_when_unstable:
  assumes "dt_stable cfg \<le> dt_forcing cfg"
  shows "isl (init cfg)"
proof (cases "init cfg")
  case (Inl a)
  then show ?thesis by simp
next
  case (Inr s)
  from init_Inr(8)[OF Inr] assms show ?thesis by simp
qed

lemma notebook_init_fails: "isl (init cfg) \<Longrightarrow> notebook cfg = Inl (projl (init cfg), None)"
  by (cases "init cfg") (simp_all add: notebook_def)

subsection \<open>The initial arrays\<close>

lemma nth_array3_add:
  assumes "r < length a" "r < length b" "c < length (a ! r)" "c < length (b ! r)"
    "i < length (a ! r ! c)" "i < length (b ! r ! c)"
  shows "array3_add a b ! r ! c ! i = a ! r ! c ! i + b ! r ! c ! i"
  using assms by (simp add: array3_add_def)

lemma length_array3_add:
  "length (array3_add a b) = min (length a) (length b)"
  "r < length a \<Longrightarrow> r < length b \<Longrightarrow>
     length (array3_add a b ! r) = min (length (a ! r)) (length (b ! r))"
  "r < length a \<Longrightarrow> r < length b \<Longrightarrow> c < length (a ! r) \<Longrightarrow> c < length (b ! r) \<Longrightarrow>
     length (array3_add a b ! r ! c) = min (length (a ! r ! c)) (length (b ! r ! c))"
  by (simp_all add: array3_add_def)

lemma rectangular_row:
  "rectangular a \<Longrightarrow> r < length a \<Longrightarrow>
     length (a ! r) = (if a = [] then 0 else length (hd a))"
  by (auto simp: rectangular_def list_all_length)

lemma init_depth:
  assumes "init cfg = Inr s"
  shows "length (depth s) = nat (arg_num_nodes cfg)"
    "i < nat (arg_num_nodes cfg) \<Longrightarrow> depth s ! i = real i * dz s"
    "0 < arg_num_nodes cfg \<Longrightarrow> depth s ! 0 = 0"
    "0 < arg_num_nodes cfg \<Longrightarrow> depth s ! (nat (arg_num_nodes cfg) - 1) = arg_profile_depth cfg"
proof -
  note n1 = init_Inr(4)[OF assms]
  from np_linspace_Inr(2)[OF init_Inr(15)[OF assms] n1]
  have d: "depth s = map (\<lambda>i. real i * dz s) [0 ..< nat (arg_num_nodes cfg)]"
    by (simp add: init_Inr(12)[OF assms])
  show l: "length (depth s) = nat (arg_num_nodes cfg)" by (simp add: d)
  show nth: "depth s ! i = real i * dz s" if "i < nat (arg_num_nodes cfg)" for i
    using that by (simp add: d)
  show "depth s ! 0 = 0" if "0 < arg_num_nodes cfg"
    using that by (simp add: d)
  show "depth s ! (nat (arg_num_nodes cfg) - 1) = arg_profile_depth cfg"
    if "0 < arg_num_nodes cfg"
  proof -
    have "2 \<le> arg_num_nodes cfg" using that n1 by simp
    then have "real (nat (arg_num_nodes cfg) - 1) = real_of_int (arg_num_nodes cfg - 1)"
      "real_of_int (arg_num_nodes cfg - 1) \<noteq> 0" "nat (arg_num_nodes cfg) - 1 < nat (arg_num_nodes cfg)"
      by (simp_all add: of_nat_diff)
    then show ?thesis
      by (simp add: d init_Inr(12)[OF assms])
  qed
qed

lemma init_temp:
  assumes "init cfg = Inr s" and "rectangular (file_dem_elevation cfg)"
  shows "length (temp s) = length (file_dem_elevation cfg)"
    "r < length (file_dem_elevation cfg) \<Longrightarrow>
       length (temp s ! r) = length (file_dem_elevation cfg ! r)"
    "r < length (file_dem_elevation cfg) \<Longrightarrow> c < length (file_dem_elevation cfg ! r) \<Longrightarrow>
       length (temp s ! r ! c) = nat (arg_num_nodes cfg)"
    "r < length (file_dem_elevation cfg) \<Longrightarrow> c < length (file_dem_elevation cfg ! r) \<Longrightarrow>
       i < nat (arg_num_nodes cfg) \<Longrightarrow>
       temp s ! r ! c ! i =
         (np_mean (Ts s) +
          arg_temp_lapse_rate cfg * (file_dem_elevation cfg ! r ! c - file_dem_mean cfg))
         + arg_geotherm cfg * depth s ! i"
proof -
  let ?el = "file_dem_elevation cfg"
  let ?n = "nat (arg_num_nodes cfg)"
  let ?cols = "if ?el = [] then 0 else length (hd ?el)"
  let ?A = "Ts0_ele s"
  let ?B = "replicate (length ?el) (replicate ?cols (map (\<lambda>d. arg_geotherm cfg * d) (depth s)))"
  note d = init_depth[OF assms(1)]
  have T: "temp s = array3_add ?A ?B" by (rule init_Inr(18)[OF assms(1)])
  have A: "?A = map (map (\<lambda>v. replicate ?n v))
                      (map (map (\<lambda>e. Ts_ini s +
                            arg_temp_lapse_rate cfg * (e - file_dem_mean cfg))) ?el)"
    by (rule init_Inr(17)[OF assms(1)])
  have lA: "length ?A = length ?el" by (simp add: A)
  have lT: "length (temp s) = length ?el" by (simp add: T length_array3_add lA)
  have row: "length (temp s ! r) = length (?el ! r) \<and>
             (\<forall>c < length (?el ! r).
               length (temp s ! r ! c) = ?n \<and>
               (\<forall>i < ?n.
                  temp s ! r ! c ! i =
                    (np_mean (Ts s) + arg_temp_lapse_rate cfg * (?el ! r ! c - file_dem_mean cfg))
                    + arg_geotherm cfg * depth s ! i))"
    if r: "r < length ?el" for r
  proof -
    have lr: "length (?el ! r) = ?cols" using rectangular_row[OF assms(2) r] .
    have lAr: "length (?A ! r) = length (?el ! r)" using r by (simp add: A)
    have lBr: "length (?B ! r) = length (?el ! r)" using r lr by simp
    have 1: "length (temp s ! r) = length (?el ! r)"
      using r lAr lBr by (simp add: T length_array3_add lA)
    have 2: "length (temp s ! r ! c) = ?n \<and>
               (\<forall>i < ?n.
                  temp s ! r ! c ! i =
                    (np_mean (Ts s) + arg_temp_lapse_rate cfg * (?el ! r ! c - file_dem_mean cfg))
                    + arg_geotherm cfg * depth s ! i)"
      if c: "c < length (?el ! r)" for c
    proof -
      have Arc: "?A ! r ! c = replicate ?n (np_mean (Ts s) +
                   arg_temp_lapse_rate cfg * (?el ! r ! c - file_dem_mean cfg))"
        using r c by (simp add: A init_Inr(16)[OF assms(1)])
      have Brc: "?B ! r ! c = map (\<lambda>d. arg_geotherm cfg * d) (depth s)"
        using r c lr by simp
      have l: "length (temp s ! r ! c) = ?n"
        using r c lAr lBr by (simp add: T length_array3_add lA Arc Brc d(1))
      have v: "temp s ! r ! c ! i =
                    (np_mean (Ts s) + arg_temp_lapse_rate cfg * (?el ! r ! c - file_dem_mean cfg))
                    + arg_geotherm cfg * depth s ! i" if "i < ?n" for i
      proof -
        have "temp s ! r ! c ! i = ?A ! r ! c ! i + ?B ! r ! c ! i"
          unfolding T
          by (rule nth_array3_add) (use r c lAr lBr that in \<open>simp_all add: lA Arc Brc d(1)\<close>)
        then show ?thesis using that by (simp add: Arc Brc d(1))
      qed
      show ?thesis using l v by blast
    qed
    show ?thesis using 1 2 by blast
  qed
  show "length (temp s) = length (file_dem_elevation cfg)" by (rule lT)
  show "length (temp s ! r) = length (file_dem_elevation cfg ! r)"
    if "r < length (file_dem_elevation cfg)" for r
    using row[OF that] by blast
  show "length (temp s ! r ! c) = nat (arg_num_nodes cfg)"
    if "r < length (file_dem_elevation cfg)" "c < length (file_dem_elevation cfg ! r)" for r c
    using row[OF that(1)] that(2) by blast
  show "temp s ! r ! c ! i =
         (np_mean (Ts s) +
          arg_temp_lapse_rate cfg * (file_dem_elevation cfg ! r ! c - file_dem_mean cfg))
         + arg_geotherm cfg * depth s ! i"
    if "r < length (file_dem_elevation cfg)" "c < length (file_dem_elevation cfg ! r)"
      "i < nat (arg_num_nodes cfg)" for r c i
    using row[OF that(1)] that(2,3) by blast
qed

subsection \<open>Objects made by the constructor\<close>

text \<open>
  The two places where the embedding's arithmetic is not numpy's, a division by
  \<open>dz = 0\<close> and the mean of an empty \<open>Ts_org\<close>, are out of reach: on an object made by
  the constructor, and after any method calls on it, \<open>dz\<close> is not zero, \<open>Ts_org\<close> is
  not empty and the forcing series has at least two samples.
\<close>

lemma constructed_object_sane:
  assumes "init cfg = Inr s0"
  shows "dz (calls ms s0) \<noteq> 0" "Ts_org (calls ms s0) \<noteq> []" "2 \<le> length (Ts (calls ms s0))"
    "timestep_duration_is (calls ms s0) = 3600"
proof -
  note i = init_Inr[OF assms]
  note f = step_frame_static[OF step_frame_calls[of s0 ms]]
  have dt: "dt_forcing cfg = 3600" using dt_forcing_hourly[OF i(7)] .
  have "dt_stable cfg = 0" if "arg_profile_depth cfg = 0"
    using that by (simp add: dt_stable_def)
  then have "arg_profile_depth cfg \<noteq> 0" using i(8) dt by auto
  moreover have "real_of_int (arg_num_nodes cfg - 1) \<noteq> 0" using i(4) by simp
  ultimately show "dz (calls ms s0) \<noteq> 0" by (simp add: f i(12))
  show "Ts_org (calls ms s0) \<noteq> []" using i(2,3) by (auto simp: f i(11))
  show "2 \<le> length (Ts (calls ms s0))" using i(7,10) by (simp add: f)
  show "timestep_duration_is (calls ms s0) = 3600" using dt by (simp add: f i(14))
qed

subsection \<open>The driver loop runs to the end of the forcing series\<close>

lemma run_one_step_succeeds:
  assumes "step_ready s" "current_timestep s < length (Ts s)"
  shows "\<exists>s'. run_one_step s = Inr s' \<and> step_ready s'"
proof -
  let ?c = "column (temp s) cell_x cell_y"
  from assms(1) have g: "in_grid (temp s) cell_x cell_y" "in_grid (frostcrackA s) cell_x cell_y"
    "?c \<noteq> []" "length (column (frostcrackA s) cell_x cell_y) = length ?c"
    "length (depth s) = length ?c"
    by (simp_all add: step_ready_def)
  obtain s1 where s1: "seed_first_step s = Inr s1" and
    t1: "in_grid (temp s1) cell_x cell_y" "length (column (temp s1) cell_x cell_y) = length ?c"
    and r1: "frostcrackA s1 = frostcrackA s" "depth s1 = depth s" "Ts s1 = Ts s"
      "current_timestep s1 = current_timestep s"
    using g by (cases "current_timestep s = 0")
      (auto simp: seed_first_step_def Let_def broadcast_to_def in_grid_set_column
        column_set_column)
  have ne1: "column (temp s1) cell_x cell_y \<noteq> []" using t1(2) g(3) by auto
  obtain s2 where s2: "assign_boundary s1 = Inr s2" and
    t2: "in_grid (temp s2) cell_x cell_y" "length (column (temp s2) cell_x cell_y) = length ?c"
    and r2: "frostcrackA s2 = frostcrackA s" "depth s2 = depth s"
    using t1 ne1 r1 assms(2)
    by (auto simp: assign_boundary_def Let_def in_grid_set_column column_set_column)
  let ?s3 = "advance_clock (diffuse s2)"
  have t3: "in_grid (temp ?s3) cell_x cell_y"
    "length (column (temp ?s3) cell_x cell_y) = length ?c"
    "frostcrackA ?s3 = frostcrackA s" "depth ?s3 = depth s"
    using t2 r2
    by (simp_all add: advance_clock_def diffuse_def in_grid_set_column column_set_column
        length_diffuse_column)
  obtain s' where s': "accumulate_frost ?s3 = Inr s'"
    using t3 g by (auto simp: accumulate_frost_def Let_def length_frost_window)
  note a = accumulate_frost_Inr[OF s']
  have "step_ready s'"
    using a t3 g
    by (auto simp: step_ready_def in_grid_set_column column_set_column length_masked_add
        length_frost_window)
  moreover have "run_one_step s = Inr s'" using s1 s2 s' by (simp add: run_one_step_def)
  ultimately show ?thesis by blast
qed

lemma driver_loop_completes:
  assumes "step_ready s"
  shows "\<exists>s'. driver_loop s = Inr s'"
  using assms
proof (induction "length (Ts s) - current_timestep s" arbitrary: s)
  case 0
  then show ?case by (subst driver_loop.simps) simp
next
  case (Suc n)
  then have k: "current_timestep s < length (Ts s)" by simp
  from run_one_step_succeeds[OF Suc.prems k] obtain s1 where
    s1: "run_one_step s = Inr s1" "step_ready s1" by blast
  note c = run_one_step_Inr_clock[OF s1(1)]
  have "n = length (Ts s1) - current_timestep s1" using Suc.hyps(2) c by simp
  from Suc.hyps(1)[OF this s1(2)] obtain s' where "driver_loop s1 = Inr s'" ..
  then show ?case using k s1(1) by (subst driver_loop.simps) simp
qed

lemma init_step_ready:
  assumes "init cfg = Inr s" "rectangular (file_dem_elevation cfg)"
    "cell_x < length (file_dem_elevation cfg)"
    "cell_y < length (file_dem_elevation cfg ! cell_x)"
    "0 < arg_num_nodes cfg"
  shows "step_ready s"
proof -
  note i = init_Inr[OF assms(1)]
  have e: "elevation s = file_dem_elevation cfg" by (rule i(26))
  have l: "length (temp s) = length (elevation s)"
    "length (temp s ! cell_x) = length (elevation s ! cell_x)"
    "length (temp s ! cell_x ! cell_y) = nat (arg_num_nodes cfg)"
    "length (depth s) = nat (arg_num_nodes cfg)"
    using init_temp(1-3)[OF assms(1,2)] init_depth(1)[OF assms(1)] assms(3,4)
    by (simp_all add: e)
  have z: "length (frostcrackA s) = length (temp s)"
    "length (frostcrackA s ! cell_x) = length (temp s ! cell_x)"
    "length (frostcrackA s ! cell_x ! cell_y) = length (temp s ! cell_x ! cell_y)"
    using assms(3,4) l by (simp_all add: i(19) zeros_like_def e)
  show ?thesis
    using l z assms(3,4,5) by (auto simp: step_ready_def in_grid_def column_def e)
qed

subsection \<open>Degenerate profiles\<close>

lemma demo_variant_forcing_time:
  "forcing_time (demo_config\<lparr>arg_num_nodes := n\<rparr>) = [0, 3600, 7200]"
  "forcing_time (demo_config\<lparr>arg_profile_depth := p\<rparr>) = [0, 3600, 7200]"
  using demo_forcing_time by (simp_all add: forcing_time_def demo_config_def)

lemma demo_variant_reaches:
  "n \<noteq> 1 \<Longrightarrow> reaches_stability_check (demo_config\<lparr>arg_num_nodes := n\<rparr>)"
  "reaches_stability_check (demo_config\<lparr>arg_profile_depth := p\<rparr>)"
  by (simp_all add: reaches_stability_check_def demo_variant_forcing_time)
     (simp_all add: demo_config_def)

lemma init_demo_no_nodes:
  "init demo_no_nodes =
     Inr (demo_object\<lparr>dz := - 40, timestep_duration_should := 800000000,
            Ts0_ele := demo_grid [], depth := [], temp := demo_grid [],
            frostcrackA := demo_grid [], frostcrackHR := demo_grid [], num_nodes := 0\<rparr>)"
  unfolding init_def Let_def forcing_time_def[symmetric] demo_no_nodes_def
    demo_variant_forcing_time
  by (simp add: demo_config_def demo_object_def demo_grid_def np_interp_def np_linspace_def
      np_mean_def array3_add_def zeros_like_def)

lemma init_demo_negative_depth:
  "init demo_negative_depth =
     Inr (demo_object\<lparr>dz := - 20, depth := [0, - 20, - 40],
            temp := demo_grid [- 5.2, - 5.7, - 6.2]\<rparr>)"
  unfolding init_def Let_def forcing_time_def[symmetric] demo_negative_depth_def
    demo_variant_forcing_time
  by (simp add: demo_config_def demo_object_def demo_grid_def np_interp_def np_linspace_def
      np_mean_def array3_add_def zeros_like_def numeral_3_eq_3)

lemma init_rejects:
  assumes "arg_num_nodes cfg = 1 \<or> arg_num_nodes cfg < 0 \<or> arg_profile_depth cfg = 0"
  shows "isl (init cfg)"
proof (cases "init cfg")
  case (Inl e)
  then show ?thesis by simp
next
  case (Inr s)
  note i = init_Inr[OF Inr]
  have "dt_forcing cfg = 3600" using dt_forcing_hourly[OF i(7)] .
  moreover have "dt_stable cfg = 0" if "arg_profile_depth cfg = 0"
    using that by (simp add: dt_stable_def)
  ultimately have "arg_profile_depth cfg \<noteq> 0" using i(8) by auto
  with assms i(4,5) show ?thesis by simp
qed

lemma init_one_node:
  assumes "arg_use_dem cfg" "file_time cfg \<noteq> []"
    "length (file_ts cfg) = length (file_time cfg)" "arg_num_nodes cfg = 1"
  shows "init cfg = Inl ZeroDivisionError"
proof -
  from assms have "\<exists>ys. np_interp (forcing_time cfg)
      (map (\<lambda>v. (v - hd (file_time cfg)) * 24 * 60 * 60) (file_time cfg))
      (map (\<lambda>v. v - 273.15) (file_ts cfg)) = Inr ys"
    by (simp add: np_interp_Inr_iff)
  then obtain ys where "np_interp (forcing_time cfg)
      (map (\<lambda>v. (v - hd (file_time cfg)) * 24 * 60 * 60) (file_time cfg))
      (map (\<lambda>v. v - 273.15) (file_ts cfg)) = Inr ys" ..
  then show ?thesis
    using assms unfolding init_def Let_def forcing_time_def[symmetric] by simp
qed

lemma init_negative_nodes:
  assumes "reaches_stability_check cfg" "arg_num_nodes cfg < 0"
  shows "init cfg = Inl AssertionError \<or> init cfg = Inl ValueError"
proof -
  let ?t = "map (\<lambda>v. (v - hd (file_time cfg)) * 24 * 60 * 60) (file_time cfg)"
  from assms(1) have "\<exists>ys. np_interp (forcing_time cfg) ?t
      (map (\<lambda>v. v - 273.15) (file_ts cfg)) = Inr ys"
    by (simp add: np_interp_Inr_iff reaches_stability_check_def)
  then obtain ys where ys: "np_interp (forcing_time cfg) ?t
      (map (\<lambda>v. v - 273.15) (file_ts cfg)) = Inr ys" ..
  show ?thesis
    using assms ys
    unfolding init_def Let_def forcing_time_def[symmetric] dt_forcing_def[symmetric]
      reaches_stability_check_def
    by (simp add: not_less)
qed

lemma init_zero_depth:
  assumes "reaches_stability_check cfg" "arg_profile_depth cfg = 0"
  shows "init cfg = Inl AssertionError"
proof -
  have "2 \<le> length (forcing_time cfg)"
    using assms(1) by (simp add: reaches_stability_check_def)
  then have "dt_forcing cfg = 3600" by (rule dt_forcing_hourly)
  moreover have "dt_stable cfg = 0" using assms(2) by (simp add: dt_stable_def)
  ultimately show ?thesis using init_at_stability_check[OF assms(1)] by auto
qed

section \<open>The claims\<close>

text \<open>
  C1. Claim: a step raises the Anderson frost index of a sample whose temperature after
  the diffusion update lies strictly between -8 and -3 by \<open>dt_forcing / seconds_per_year\<close>,
  and by 0 otherwise.
  The code adds the constant \<open>1 / (3600 * 24 * 365)\<close>, whatever the step: in the example
  run the forcing step is 3600 s, the surface sample is at -5 degrees after the first step,
  and its index has grown by \<open>1 / 31536000\<close>, not by \<open>3600 / 31536000\<close>.
  Lemma \<open>frost_increment\<close> above gives the increment of every successful step; the
  window is the open interval and the increment outside it is 0, as claimed.
\<close>

theorem frost_increment_ignores_step_length:
  "run_one_step demo_object = Inr demo_step1 \<and>
   timestep_duration_is demo_object = 3600 \<and>
   column (temp demo_step1) cell_x cell_y ! 0 = - 5 \<and>
   column (frostcrackA demo_step1) cell_x cell_y ! 0
     - column (frostcrackA demo_object) cell_x cell_y ! 0 = 1 / (3600 * 24 * 365) \<and>
   column (frostcrackA demo_step1) cell_x cell_y ! 0
     - column (frostcrackA demo_object) cell_x cell_y ! 0
     \<noteq> timestep_duration_is demo_object / (3600 * 24 * 365)"
  by (simp add: run_demo_object)
     (simp add: demo_object_def demo_step1_def cell_x_def cell_y_def demo_in_grid demo_column
        column_set_column)

text \<open>
  C2. The constructor computes \<open>timestep_duration_should = dz * dz / (2 * thermal_diffusivity)\<close>
  and asserts that it exceeds \<open>timestep_duration_is\<close>, the step of the hourly axis.
  Whenever \<open>dt_stable \<le> dt_forcing\<close> the constructor raises, so the notebook has no object
  and makes no step. For a configuration with which the constructor gets as far as the
  assertion (the files read, \<open>num_nodes \<noteq> 1\<close>, a non-zero diffusivity, two samples on the
  hourly axis), it raises AssertionError, the failed stability assertion, exactly when
  \<open>dt_stable \<le> dt_forcing\<close>. An object that exists has \<open>dt_forcing < dt_stable\<close>.
\<close>

theorem stability_check:
  "(dt_stable cfg \<le> dt_forcing cfg \<longrightarrow>
      isl (init cfg) \<and> notebook cfg = Inl (projl (init cfg), None)) \<and>
   (reaches_stability_check cfg \<longrightarrow>
      (dt_stable cfg \<le> dt_forcing cfg \<longrightarrow>
         init cfg = Inl AssertionError \<and> notebook cfg = Inl (AssertionError, None)) \<and>
      (dt_forcing cfg < dt_stable cfg \<longrightarrow> init cfg \<noteq> Inl AssertionError)) \<and>
   (\<forall>s. init cfg = Inr s \<longrightarrow>
      timestep_duration_should s = dt_stable cfg \<and>
      timestep_duration_is s = dt_forcing cfg \<and>
      dt_forcing cfg < dt_stable cfg)"
proof -
  have a: "isl (init cfg) \<and> notebook cfg = Inl (projl (init cfg), None)"
    if "dt_stable cfg \<le> dt_forcing cfg"
    using init_fails_when_unstable[OF that] notebook_init_fails by simp
  have b: "init cfg = Inl AssertionError \<and> notebook cfg = Inl (AssertionError, None)"
    if "reaches_stability_check cfg" "dt_stable cfg \<le> dt_forcing cfg"
    using init_at_stability_check[OF that(1)] that(2) by (auto simp: notebook_def)
  have c: "init cfg \<noteq> Inl AssertionError"
    if "reaches_stability_check cfg" "dt_forcing cfg < dt_stable cfg"
    using init_at_stability_check[OF that(1)] that(2) by auto
  have d: "timestep_duration_should s = dt_stable cfg \<and>
      timestep_duration_is s = dt_forcing cfg \<and> dt_forcing cfg < dt_stable cfg"
    if "init cfg = Inr s" for s
    using init_Inr(8,13,14)[OF that] by simp
  show ?thesis using a b c d by blast
qed

theorem stability_check_witness:
  "reaches_stability_check demo_unstable \<and>
   dt_stable demo_unstable = 1250 \<and> dt_forcing demo_unstable = 3600 \<and>
   dt_stable demo_unstable \<le> dt_forcing demo_unstable \<and>
   init demo_unstable = Inl AssertionError \<and>
   notebook demo_unstable = Inl (AssertionError, None) \<and>
   reaches_stability_check demo_config \<and>
   dt_stable demo_config = 200000000 \<and> dt_forcing demo_config = 3600 \<and>
   dt_forcing demo_config < dt_stable demo_config \<and>
   init demo_config \<noteq> Inl AssertionError \<and>
   init demo_config = Inr demo_object \<and>
   timestep_duration_should demo_object = dt_stable demo_config \<and>
   timestep_duration_is demo_object = dt_forcing demo_config"
proof -
  have ft: "forcing_time demo_unstable = [0, 3600, 7200]"
    using demo_forcing_time by (simp add: forcing_time_def demo_unstable_def demo_config_def)
  have r: "reaches_stability_check demo_unstable" "reaches_stability_check demo_config"
    by (simp_all add: reaches_stability_check_def ft demo_forcing_time)
       (simp_all add: demo_unstable_def demo_config_def)
  have v: "dt_stable demo_unstable = 1250" "dt_forcing demo_unstable = 3600"
    "dt_stable demo_config = 200000000" "dt_forcing demo_config = 3600"
    by (simp_all add: dt_forcing_def ft demo_forcing_time)
       (simp_all add: dt_stable_def demo_unstable_def demo_config_def power2_eq_square)
  from stability_check[of demo_unstable] stability_check[of demo_config]
  show ?thesis using r v init_demo by simp
qed

text \<open>
  C3. The diffusion update of a successful step, sample by sample. \<open>c\<close> is the column
  of cell (500, 400) after the surface sample has been set to the forcing value (on the
  first call: the column as re-seeded by that call, see C10), \<open>q i\<close> the flux between
  samples \<open>i\<close> and \<open>i + 1\<close>, \<open>new\<close> the column after the step. Sample 0 of
  \<open>new\<close> is the forcing value, every sample \<open>1 \<le> i \<le> N - 2\<close> is
  \<open>c[i] - dt * (q[i] - q[i-1]) / dz\<close>, and sample \<open>N - 1\<close> is the one of \<open>c\<close>
  (on every call but the first: the one the object had before the call).
\<close>

theorem diffusion_step:
  assumes ok: "run_one_step s = Inr s'"
    and len: "length (depth s) = length (column (temp s) cell_x cell_y)"
    and c: "c = (if current_timestep s = 0
                 then map (\<lambda>d. np_mean (Ts_org s) + geotherm s * d) (depth s)
                 else column (temp s) cell_x cell_y)
                [0 := Ts s ! current_timestep s]"
    and q: "q = (\<lambda>i. - thermal_diffusivity s * (c ! (i + 1) - c ! i) / dz s)"
    and N: "N = length (column (temp s) cell_x cell_y)" "2 \<le> N"
    and new: "new = column (temp s') cell_x cell_y"
  shows "length c = N \<and> length new = N \<and>
         c ! 0 = Ts s ! current_timestep s \<and>
         new ! 0 = Ts s ! current_timestep s \<and>
         (\<forall>i. 1 \<le> i \<and> i \<le> N - 2 \<longrightarrow>
            new ! i = c ! i - timestep_duration_is s * (q i - q (i - 1)) / dz s) \<and>
         new ! (N - 1) = c ! (N - 1) \<and>
         (current_timestep s \<noteq> 0 \<longrightarrow>
            new ! (N - 1) = column (temp s) cell_x cell_y ! (N - 1))"
proof -
  from ok obtain c0 where
    c0: "current_timestep s \<noteq> 0 \<and> c0 = column (temp s) cell_x cell_y \<or>
         current_timestep s = 0 \<and>
           broadcast_to (length (column (temp s) cell_x cell_y))
             (map (\<lambda>d. np_mean (Ts_org s) + geotherm s * d) (depth s)) = Inr c0" and
    l0: "length c0 = length (column (temp s) cell_x cell_y)" and
    g: "in_grid (temp s) cell_x cell_y" and
    s': "s' = s\<lparr>temp := set_column (temp s) cell_x cell_y
                 (diffuse_column (thermal_diffusivity s) (dz s) (timestep_duration_is s)
                    (c0[0 := Ts s ! current_timestep s])),
              Ts_ini := Ts s ! current_timestep s,
              current_time := current_time s + timestep_duration_is s,
              current_timestep := current_timestep s + 1,
              frostcrackA := set_column (frostcrackA s) cell_x cell_y
                 (masked_add (column (frostcrackA s) cell_x cell_y)
                    (frost_window
                       (diffuse_column (thermal_diffusivity s) (dz s) (timestep_duration_is s)
                          (c0[0 := Ts s ! current_timestep s])))
                    (1 / (3600 * 24 * 365))),
              self_x := Some cell_x, self_y := Some cell_y\<rparr>"
    by (rule run_one_step_Inr)
  have cc: "c = c0[0 := Ts s ! current_timestep s]"
    using c0 len by (auto simp: c broadcast_to_def)
  have lc: "length c = N" using cc l0 N by simp
  have n: "new = diffuse_column (thermal_diffusivity s) (dz s) (timestep_duration_is s) c"
    using g by (simp add: new s' cc column_set_column)
  have ln: "length new = N" by (simp add: n length_diffuse_column lc)
  have c_0: "c ! 0 = Ts s ! current_timestep s"
  proof -
    have "0 < length c0" using l0 N by auto
    then show ?thesis by (simp add: cc)
  qed
  have new_0: "new ! 0 = Ts s ! current_timestep s"
    by (simp add: n diffuse_column_first c_0)
  have inner: "new ! i = c ! i - timestep_duration_is s * (q i - q (i - 1)) / dz s"
    if "1 \<le> i \<and> i \<le> N - 2" for i
  proof -
    from that N have i: "1 \<le> i" "Suc i < length c" "Suc (i - 1) < length c" "Suc (i - 1) = i"
      by (auto simp: lc)
    have "flux (thermal_diffusivity s) (dz s) c ! i = q i"
      using nth_flux[OF i(2)] by (simp add: q)
    moreover have "flux (thermal_diffusivity s) (dz s) c ! (i - 1) = q (i - 1)"
      using nth_flux[OF i(3)] i(4) by (simp add: q)
    ultimately show ?thesis
      using diffuse_column_inner[OF i(1,2)] by (simp add: n)
  qed
  have last: "new ! (N - 1) = c ! (N - 1)"
    using diffuse_column_last[of "thermal_diffusivity s" "dz s" "timestep_duration_is s" c]
    by (simp add: n lc)
  have old: "new ! (N - 1) = column (temp s) cell_x cell_y ! (N - 1)"
    if "current_timestep s \<noteq> 0"
    using that last N by (simp add: c)
  show ?thesis
    using lc ln c_0 new_0 inner last old by blast
qed

theorem diffusion_step_witness:
  "run_one_step demo_step1 = Inr demo_step2 \<and>
   length (depth demo_step1) = length (column (temp demo_step1) cell_x cell_y) \<and>
   column (temp demo_step1) cell_x cell_y = [- 5, - (6000027 / 2000000), - 2.5] \<and>
   (2::nat) \<le> 3 \<and>
   column (temp demo_step2) cell_x cell_y ! 0 = - 4 \<and>
   column (temp demo_step2) cell_x cell_y ! 1 =
     - (6000027 / 2000000)
     - 3600 * ((- (1 / 1000000) * (- 2.5 - (- (6000027 / 2000000))) / 20)
              - (- (1 / 1000000) * (- (6000027 / 2000000) - (- 4)) / 20)) / 20 \<and>
   column (temp demo_step2) cell_x cell_y ! 2 = - 2.5"
proof -
  have col: "column (temp demo_step1) cell_x cell_y = [- 5, - (6000027 / 2000000), - 2.5]"
    by (simp add: demo_step1_def demo_object_def cell_x_def cell_y_def demo_in_grid
        column_set_column)
  have f: "length (depth demo_step1) = length (column (temp demo_step1) cell_x cell_y)"
    "current_timestep demo_step1 = 1" "Ts demo_step1 ! 1 = - 4" "Ts demo_step1 ! Suc 0 = - 4"
    "thermal_diffusivity demo_step1 = 1 / 1000000" "dz demo_step1 = 20"
    "timestep_duration_is demo_step1 = 3600"
    by (simp_all add: col) (simp_all add: demo_step1_def demo_object_def)
  have N: "(3::nat) = length (column (temp demo_step1) cell_x cell_y)" "(2::nat) \<le> 3"
    by (simp_all add: col)
  from diffusion_step[OF run_demo_step1 f(1) refl refl N refl]
  show ?thesis
    by (simp add: run_demo_step1 col f)
qed

text \<open>
  C4. After a step that was called at time index \<open>k\<close>, the surface sample of the stepped
  column is exactly the forcing value \<open>Ts[k]\<close>, and the time index has become \<open>k + 1\<close>.
\<close>

theorem boundary_overwrite:
  assumes "run_one_step s = Inr s'"
  shows "current_timestep s < length (Ts s) \<and>
         column (temp s') cell_x cell_y ! 0 = Ts s ! current_timestep s \<and>
         Ts s' = Ts s \<and>
         current_timestep s' = current_timestep s + 1"
proof -
  from assms obtain c0 where
    g: "in_grid (temp s) cell_x cell_y" and
    k: "current_timestep s < length (Ts s)" and
    n: "c0 \<noteq> []" and
    s': "s' = s\<lparr>temp := set_column (temp s) cell_x cell_y
                 (diffuse_column (thermal_diffusivity s) (dz s) (timestep_duration_is s)
                    (c0[0 := Ts s ! current_timestep s])),
              Ts_ini := Ts s ! current_timestep s,
              current_time := current_time s + timestep_duration_is s,
              current_timestep := current_timestep s + 1,
              frostcrackA := set_column (frostcrackA s) cell_x cell_y
                 (masked_add (column (frostcrackA s) cell_x cell_y)
                    (frost_window
                       (diffuse_column (thermal_diffusivity s) (dz s) (timestep_duration_is s)
                          (c0[0 := Ts s ! current_timestep s])))
                    (1 / (3600 * 24 * 365))),
              self_x := Some cell_x, self_y := Some cell_y\<rparr>"
    by (rule run_one_step_Inr)
  have "column (temp s') cell_x cell_y ! 0 = (c0[0 := Ts s ! current_timestep s]) ! 0"
    using g by (simp add: s' column_set_column diffuse_column_first)
  also have "\<dots> = Ts s ! current_timestep s" using n by simp
  finally show ?thesis using k by (simp add: s')
qed

theorem boundary_overwrite_witness:
  "run_one_step demo_step1 = Inr demo_step2 \<and>
   current_timestep demo_step1 = 1 \<and>
   Ts demo_step1 ! 1 = - 4 \<and>
   column (temp demo_step2) cell_x cell_y ! 0 = - 4 \<and>
   current_timestep demo_step2 = 2"
  using boundary_overwrite[OF run_demo_step1]
  by (simp add: run_demo_step1) (simp add: demo_step1_def demo_step2_def demo_object_def)

text \<open>
  C5. The object the constructor returns: \<open>depth\<close> has \<open>num_nodes\<close> samples
  \<open>i * dz\<close> with \<open>dz = profile_depth / (num_nodes - 1)\<close>, from 0 to \<open>profile_depth\<close>;
  \<open>temp\<close> has one column of \<open>num_nodes\<close> samples for every cell of the elevation grid,
  and sample \<open>i\<close> of the column of cell \<open>(r, c)\<close> is
  \<open>(np.mean(Ts) + temp_lapse_rate * (elevation[r, c] - T_ele)) + geotherm * depth[i]\<close>,
  with \<open>Ts\<close> the hourly forcing series and \<open>T_ele\<close> the mean of the DEM.
\<close>

theorem initial_profile:
  assumes "init cfg = Inr s" and "rectangular (file_dem_elevation cfg)"
  shows "length (depth s) = nat (arg_num_nodes cfg) \<and>
         dz s = arg_profile_depth cfg / real_of_int (arg_num_nodes cfg - 1) \<and>
         (\<forall>i < nat (arg_num_nodes cfg). depth s ! i = real i * dz s) \<and>
         (0 < arg_num_nodes cfg \<longrightarrow>
            depth s ! 0 = 0 \<and>
            depth s ! (nat (arg_num_nodes cfg) - 1) = arg_profile_depth cfg) \<and>
         elevation s = file_dem_elevation cfg \<and> T_ele s = file_dem_mean cfg \<and>
         length (temp s) = length (elevation s) \<and>
         (\<forall>r < length (elevation s).
            length (temp s ! r) = length (elevation s ! r) \<and>
            (\<forall>c < length (elevation s ! r).
               length (temp s ! r ! c) = nat (arg_num_nodes cfg) \<and>
               (\<forall>i < nat (arg_num_nodes cfg).
                  temp s ! r ! c ! i =
                    (np_mean (Ts s) + arg_temp_lapse_rate cfg * (elevation s ! r ! c - T_ele s))
                    + arg_geotherm cfg * depth s ! i)))"
  using init_depth[OF assms(1)] init_temp[OF assms] init_Inr(12,26,27)[OF assms(1)]
  by simp

theorem initial_profile_witness:
  "init demo_config = Inr demo_object \<and>
   rectangular (file_dem_elevation demo_config) \<and>
   depth demo_object = [0, 20, 40] \<and> dz demo_object = 20 \<and>
   (0::int) < arg_num_nodes demo_config \<and>
   depth demo_object ! (nat (arg_num_nodes demo_config) - 1) = arg_profile_depth demo_config \<and>
   (300::nat) < length (elevation demo_object) \<and>
   (200::nat) < length (elevation demo_object ! 300) \<and>
   (2::nat) < nat (arg_num_nodes demo_config) \<and>
   temp demo_object ! 300 ! 200 ! 2 =
     (np_mean (Ts demo_object) +
      arg_temp_lapse_rate demo_config * (elevation demo_object ! 300 ! 200 - T_ele demo_object))
     + arg_geotherm demo_config * depth demo_object ! 2 \<and>
   temp demo_object ! 300 ! 200 ! 2 = - 4.2"
proof -
  have rect: "rectangular (file_dem_elevation demo_config)"
    by (simp add: rectangular_def demo_config_def list_all_length)
  have f: "depth demo_object = [0, 20, 40]" "dz demo_object = 20"
    "(300::nat) < length (elevation demo_object)"
    "(200::nat) < length (elevation demo_object ! 300)"
    "temp demo_object ! 300 ! 200 ! 2 = - 4.2"
    by (simp_all add: demo_object_def demo_grid_def)
  have g: "(0::int) < arg_num_nodes demo_config" "(2::nat) < nat (arg_num_nodes demo_config)"
    by (simp_all add: demo_config_def)
  note t = initial_profile[OF init_demo rect]
  from t g(1) have 1: "depth demo_object ! (nat (arg_num_nodes demo_config) - 1)
      = arg_profile_depth demo_config" by blast
  from t f(3,4) g(2) have 2: "temp demo_object ! 300 ! 200 ! 2 =
     (np_mean (Ts demo_object) +
      arg_temp_lapse_rate demo_config * (elevation demo_object ! 300 ! 200 - T_ele demo_object))
     + arg_geotherm demo_config * depth demo_object ! 2" by blast
  show ?thesis using init_demo rect f g 1 2 by simp
qed

text \<open>
  C6. Claim: with \<open>num_nodes < 2\<close> or \<open>profile_depth \<le> 0\<close> the constructor fails with a
  ConfigurationError. The constructor checks neither argument. With \<open>num_nodes = 0\<close> it
  returns an object with empty columns, and with \<open>profile_depth = -40\<close> one whose depth axis
  runs from 0 down to -40.
\<close>

theorem invalid_profile_accepted:
  "arg_num_nodes demo_no_nodes < 2 \<and> \<not> isl (init demo_no_nodes) \<and>
   depth (projr (init demo_no_nodes)) = [] \<and>
   arg_profile_depth demo_negative_depth \<le> 0 \<and> \<not> isl (init demo_negative_depth) \<and>
   depth (projr (init demo_negative_depth)) = [0, - 20, - 40]"
  by (simp add: init_demo_no_nodes init_demo_negative_depth)
     (simp add: demo_no_nodes_def demo_negative_depth_def demo_config_def)

text \<open>
  C6, as the code has it. With \<open>num_nodes = 1\<close>, \<open>num_nodes < 0\<close> or
  \<open>profile_depth = 0\<close> the constructor raises, so that the notebook has no object:
  ZeroDivisionError from \<open>profile_depth / (num_nodes - 1)\<close> for one node, the failed
  stability assertion for a zero depth (\<open>dt_stable = 0\<close>), and the failed stability
  assertion or the ValueError of \<open>np.repeat\<close> for a negative number of nodes, unless an
  earlier statement has raised already.
\<close>

theorem degenerate_profile_rejected:
  assumes "arg_num_nodes cfg = 1 \<or> arg_num_nodes cfg < 0 \<or> arg_profile_depth cfg = 0"
  shows "isl (init cfg) \<and> notebook cfg = Inl (projl (init cfg), None) \<and>
         (arg_use_dem cfg \<and> file_time cfg \<noteq> [] \<and>
          length (file_ts cfg) = length (file_time cfg) \<and> arg_num_nodes cfg = 1 \<longrightarrow>
            init cfg = Inl ZeroDivisionError) \<and>
         (reaches_stability_check cfg \<and> arg_profile_depth cfg = 0 \<longrightarrow>
            init cfg = Inl AssertionError) \<and>
         (reaches_stability_check cfg \<and> arg_num_nodes cfg < 0 \<longrightarrow>
            init cfg = Inl AssertionError \<or> init cfg = Inl ValueError)"
  using init_rejects[OF assms] notebook_init_fails[of cfg] init_one_node[of cfg]
    init_zero_depth[of cfg] init_negative_nodes[of cfg]
  by blast

theorem degenerate_profile_rejected_witness:
  "arg_num_nodes demo_one_node = 1 \<and> init demo_one_node = Inl ZeroDivisionError \<and>
   notebook demo_one_node = Inl (ZeroDivisionError, None) \<and>
   arg_num_nodes demo_minus_one_node < 0 \<and> init demo_minus_one_node = Inl ValueError \<and>
   notebook demo_minus_one_node = Inl (ValueError, None) \<and>
   arg_profile_depth demo_zero_depth = 0 \<and> init demo_zero_depth = Inl AssertionError \<and>
   notebook demo_zero_depth = Inl (AssertionError, None)"
proof -
  have a: "arg_num_nodes demo_one_node = 1" "arg_use_dem demo_one_node"
    "file_time demo_one_node \<noteq> []"
    "length (file_ts demo_one_node) = length (file_time demo_one_node)"
    by (simp_all add: demo_one_node_def demo_config_def)
  have b: "arg_num_nodes demo_minus_one_node < 0" "reaches_stability_check demo_minus_one_node"
    unfolding demo_minus_one_node_def
    by (simp_all add: demo_variant_reaches)
  have b': "init demo_minus_one_node \<noteq> Inl AssertionError"
  proof -
    have "dt_forcing demo_minus_one_node = 3600"
      by (simp add: dt_forcing_def demo_minus_one_node_def demo_variant_forcing_time)
    moreover have "dt_stable demo_minus_one_node = 200000000"
      by (simp add: dt_stable_def demo_minus_one_node_def demo_config_def power2_eq_square)
    ultimately show ?thesis using init_at_stability_check[OF b(2)] by auto
  qed
  have c: "arg_profile_depth demo_zero_depth = 0" "reaches_stability_check demo_zero_depth"
    unfolding demo_zero_depth_def
    by (simp_all add: demo_variant_reaches)
  from degenerate_profile_rejected[of demo_one_node] a
  have 1: "init demo_one_node = Inl ZeroDivisionError"
    "notebook demo_one_node = Inl (projl (init demo_one_node), None)" by blast+
  from degenerate_profile_rejected[of demo_minus_one_node] b b'
  have 2: "init demo_minus_one_node = Inl ValueError"
    "notebook demo_minus_one_node = Inl (projl (init demo_minus_one_node), None)" by blast+
  from degenerate_profile_rejected[of demo_zero_depth] c
  have 3: "init demo_zero_depth = Inl AssertionError"
    "notebook demo_zero_depth = Inl (projl (init demo_zero_depth), None)" by blast+
  show ?thesis using a(1) b(1) c(1) 1 2 3 by simp
qed

text \<open>
  C7. The driver loop calls the step while the time index is below the length of the
  forcing series, and when it returns the index equals that length; it does return when
  the DEM has a cell (500, 400) and the profile has samples. On an object made by
  the constructor and used through method calls only, a step called at that index raises
  (IndexError, from \<open>self.Ts[self.current_timestep]\<close>: the code has no error class of its
  own for a completed run) before it has written anything: the object is exactly as
  before, and the driver loop run again returns it unchanged.
\<close>

theorem completed_driver_rejects_steps:
  assumes "init cfg = Inr s0"
  shows "(\<forall>ms. current_timestep (calls ms s0) = length (Ts (calls ms s0)) \<longrightarrow>
            run_one_step (calls ms s0) = Inl (IndexError, calls ms s0) \<and>
            object_after (run_one_step (calls ms s0)) = calls ms s0) \<and>
         (\<forall>s. current_timestep s < length (Ts s) \<longrightarrow>
            driver_loop s = (case run_one_step s of Inl err \<Rightarrow> Inl err
                             | Inr s' \<Rightarrow> driver_loop s')) \<and>
         (\<forall>sN. driver_loop s0 = Inr sN \<longrightarrow>
            current_timestep sN = length (Ts sN) \<and>
            run_one_step sN = Inl (IndexError, sN) \<and>
            driver_loop sN = Inr sN) \<and>
         (rectangular (file_dem_elevation cfg) \<and>
          500 < length (file_dem_elevation cfg) \<and>
          400 < length (file_dem_elevation cfg ! 500) \<and>
          0 < arg_num_nodes cfg \<longrightarrow>
            (\<exists>sN. driver_loop s0 = Inr sN))"
proof -
  have len: "2 \<le> length (Ts s0)" using init_Inr(7,10)[OF assms] by simp
  have k0: "current_timestep s0 = 0" using init_Inr(21)[OF assms] .
  have a: "run_one_step (calls ms s0) = Inl (IndexError, calls ms s0) \<and>
           object_after (run_one_step (calls ms s0)) = calls ms s0"
    if "current_timestep (calls ms s0) = length (Ts (calls ms s0))" for ms
  proof -
    have "current_timestep (calls ms s0) \<noteq> 0" using that len by (auto simp: calls_Ts)
    from run_one_step_at_end[OF that this] show ?thesis by (simp add: object_after_def)
  qed
  have b: "driver_loop s = (case run_one_step s of Inl err \<Rightarrow> Inl err
                             | Inr s' \<Rightarrow> driver_loop s')"
    if "current_timestep s < length (Ts s)" for s
    using that by (subst driver_loop.simps) simp
  have c: "current_timestep sN = length (Ts sN) \<and>
            run_one_step sN = Inl (IndexError, sN) \<and>
            driver_loop sN = Inr sN"
    if "driver_loop s0 = Inr sN" for sN
  proof -
    from driver_loop_Inr[OF that] k0 obtain n where
      e: "current_timestep sN = length (Ts sN)" "sN = calls (replicate n Run_one_step) s0"
      by auto
    have "run_one_step sN = Inl (IndexError, sN)" using a e by blast
    moreover have "driver_loop sN = Inr sN" using e(1) by (subst driver_loop.simps) simp
    ultimately show ?thesis using e(1) by simp
  qed
  have d: "\<exists>sN. driver_loop s0 = Inr sN"
    if "rectangular (file_dem_elevation cfg) \<and>
          500 < length (file_dem_elevation cfg) \<and>
          400 < length (file_dem_elevation cfg ! 500) \<and>
          0 < arg_num_nodes cfg"
  proof -
    have "step_ready s0"
      using init_step_ready[OF assms] that by (simp add: cell_x_def cell_y_def)
    then show ?thesis by (rule driver_loop_completes)
  qed
  show ?thesis using a b c d by blast
qed

theorem completed_driver_rejects_steps_witness:
  "init demo_config = Inr demo_object \<and>
   rectangular (file_dem_elevation demo_config) \<and>
   driver_loop demo_object = Inr demo_step3 \<and>
   current_timestep demo_step3 = 3 \<and> length (Ts demo_step3) = 3 \<and>
   run_one_step demo_step3 = Inl (IndexError, demo_step3) \<and>
   driver_loop demo_step3 = Inr demo_step3 \<and>
   current_timestep (calls [Run_one_step, Run_one_step, Run_one_step] demo_object)
     = length (Ts (calls [Run_one_step, Run_one_step, Run_one_step] demo_object)) \<and>
   object_after (run_one_step (calls [Run_one_step, Run_one_step, Run_one_step] demo_object))
     = calls [Run_one_step, Run_one_step, Run_one_step] demo_object \<and>
   current_timestep demo_step1 < length (Ts demo_step1) \<and>
   driver_loop demo_step1 = driver_loop demo_step2"
proof -
  have c: "calls [Run_one_step, Run_one_step, Run_one_step] demo_object = demo_step3"
    by (simp add: run_demo_object run_demo_step1 run_demo_step2 object_after_def)
  have k: "current_timestep demo_step3 = 3" "length (Ts demo_step3) = 3"
    "current_timestep demo_step1 < length (Ts demo_step1)"
    by (simp_all add: demo_step3_def demo_step1_def demo_object_def)
  note t = completed_driver_rejects_steps[OF init_demo]
  from t have 1: "current_timestep (calls [Run_one_step, Run_one_step, Run_one_step] demo_object)
      = length (Ts (calls [Run_one_step, Run_one_step, Run_one_step] demo_object)) \<longrightarrow>
      object_after (run_one_step (calls [Run_one_step, Run_one_step, Run_one_step] demo_object))
      = calls [Run_one_step, Run_one_step, Run_one_step] demo_object"
    by blast
  from t have 2: "current_timestep demo_step1 < length (Ts demo_step1) \<longrightarrow>
      driver_loop demo_step1 = (case run_one_step demo_step1 of Inl err \<Rightarrow> Inl err
                             | Inr s' \<Rightarrow> driver_loop s')"
    by blast
  have rect: "rectangular (file_dem_elevation demo_config) \<and>
          500 < length (file_dem_elevation demo_config) \<and>
          400 < length (file_dem_elevation demo_config ! 500) \<and>
          0 < arg_num_nodes demo_config"
    by (simp add: rectangular_def demo_config_def list_all_length)
  from t rect have 4: "\<exists>sN. driver_loop demo_object = Inr sN" by blast
  from t driver_demo have 3: "current_timestep demo_step3 = length (Ts demo_step3) \<and>
            run_one_step demo_step3 = Inl (IndexError, demo_step3) \<and>
            driver_loop demo_step3 = Inr demo_step3"
    by blast
  show ?thesis
    using 1 2 3 4 k rect init_demo driver_demo unfolding c by (simp add: run_demo_step1)
qed

text \<open>
  C8. Every entry of \<open>frostcrackA\<close> is zero in the object the constructor returns, and no
  method call, returning or raising, lowers an entry: along any sequence of calls the
  entry never decreases.
\<close>

theorem frost_index_monotone:
  assumes "r < length (frostcrackA s)" "c < length (frostcrackA s ! r)"
    "i < length (frostcrackA s ! r ! c)"
  shows "(init cfg = Inr s \<longrightarrow> frostcrackA s ! r ! c ! i = 0) \<and>
         (\<forall>m. frostcrackA s ! r ! c ! i \<le> frostcrackA (object_after (call m s)) ! r ! c ! i) \<and>
         (\<forall>ms ms'. frostcrackA (calls ms s) ! r ! c ! i
                     \<le> frostcrackA (calls (ms @ ms') s) ! r ! c ! i)"
proof -
  have zero: "frostcrackA s ! r ! c ! i = 0" if "init cfg = Inr s"
    using init_Inr(19)[OF that] assms zeros_like_nth[of r "temp s" c i] by simp
  have one: "frostcrackA s ! r ! c ! i \<le> frostcrackA (object_after (call m s)) ! r ! c ! i"
    for m
    using step_frame_mono[OF step_frame_call assms] .
  have many: "frostcrackA (calls ms s) ! r ! c ! i
                \<le> frostcrackA (calls (ms @ ms') s) ! r ! c ! i" for ms ms'
  proof -
    have f: "step_frame s (calls ms s)" by (rule step_frame_calls)
    have in_range: "r < length (frostcrackA (calls ms s))"
      "c < length (frostcrackA (calls ms s) ! r)"
      "i < length (frostcrackA (calls ms s) ! r ! c)"
      using assms by (simp_all add: step_frame_shape[OF f])
    show ?thesis
      unfolding calls_append
      using step_frame_mono[OF step_frame_calls in_range] .
  qed
  show ?thesis using zero one many by blast
qed

theorem frost_index_monotone_witness:
  "(500::nat) < length (frostcrackA demo_object) \<and>
   (400::nat) < length (frostcrackA demo_object ! 500) \<and>
   (1::nat) < length (frostcrackA demo_object ! 500 ! 400) \<and>
   init demo_config = Inr demo_object \<and>
   frostcrackA demo_object ! 500 ! 400 ! 1 = 0 \<and>
   frostcrackA demo_object ! 500 ! 400 ! 1
     \<le> frostcrackA (object_after (call Run_one_step demo_object)) ! 500 ! 400 ! 1 \<and>
   frostcrackA (calls [Run_one_step] demo_object) ! 500 ! 400 ! 1
     \<le> frostcrackA (calls ([Run_one_step] @ [Interp_Ts, Run_one_step]) demo_object) ! 500 ! 400 ! 1"
proof -
  have r: "(500::nat) < length (frostcrackA demo_object)"
    "(400::nat) < length (frostcrackA demo_object ! 500)"
    "(1::nat) < length (frostcrackA demo_object ! 500 ! 400)"
    by (simp_all add: demo_object_def demo_grid_def)
  from frost_index_monotone[OF r, of demo_config] init_demo r
  show ?thesis by blast
qed

text \<open>
  C9. A call of \<open>run_one_step\<close>, returning or raising, leaves every column of
  \<open>temp\<close> and \<open>frostcrackA\<close> other than the one of cell (500, 400) as it was, and so
  does every sequence of method calls; \<open>frostcrackHR\<close> is never changed.
\<close>

theorem only_active_cell_changes:
  "(r \<noteq> 500 \<or> c \<noteq> 400 \<longrightarrow>
      temp (object_after (run_one_step s)) ! r ! c = temp s ! r ! c \<and>
      frostcrackA (object_after (run_one_step s)) ! r ! c = frostcrackA s ! r ! c \<and>
      temp (calls ms s) ! r ! c = temp s ! r ! c \<and>
      frostcrackA (calls ms s) ! r ! c = frostcrackA s ! r ! c) \<and>
   frostcrackHR (object_after (run_one_step s)) = frostcrackHR s \<and>
   frostcrackHR (object_after (calculate_frost_cracking_depth_Hales_Roering s)) = frostcrackHR s \<and>
   frostcrackHR (calls ms s) = frostcrackHR s"
proof -
  have x: "cell_x = 500" "cell_y = 400" by (simp_all add: cell_x_def cell_y_def)
  have 1: "step_frame s (object_after (run_one_step s))" by (rule step_frame_run_one_step)
  have 2: "step_frame s (calls ms s)" by (rule step_frame_calls)
  have 3: "step_frame s (object_after (call Calculate_Hales_Roering s))" by (rule step_frame_call)
  show ?thesis
    using step_frame_other_cells[OF 1, of r c] step_frame_other_cells[OF 2, of r c]
      step_frame_static(8)[OF 1] step_frame_static(8)[OF 2] step_frame_static(8)[OF 3]
    by (simp add: x)
qed

theorem only_active_cell_changes_witness:
  "(499::nat) \<noteq> 500 \<and>
   temp (object_after (run_one_step demo_object)) ! 499 ! 400 = temp demo_object ! 499 ! 400 \<and>
   frostcrackA (object_after (run_one_step demo_object)) ! 499 ! 400
     = frostcrackA demo_object ! 499 ! 400 \<and>
   temp (calls [Run_one_step, Run_one_step] demo_object) ! 499 ! 400
     = temp demo_object ! 499 ! 400 \<and>
   temp (object_after (run_one_step demo_object)) ! 500 ! 400 \<noteq> temp demo_object ! 500 ! 400 \<and>
   frostcrackA (object_after (run_one_step demo_object)) ! 500 ! 400
     \<noteq> frostcrackA demo_object ! 500 ! 400 \<and>
   frostcrackHR (calls [Run_one_step, Run_one_step] demo_object) = frostcrackHR demo_object"
proof -
  have a: "temp (object_after (run_one_step demo_object)) ! 500 ! 400
             \<noteq> temp demo_object ! 500 ! 400"
    "frostcrackA (object_after (run_one_step demo_object)) ! 500 ! 400
             \<noteq> frostcrackA demo_object ! 500 ! 400"
  proof -
    have e: "object_after (run_one_step demo_object) = demo_step1"
      by (simp add: run_demo_object object_after_def)
    show "temp (object_after (run_one_step demo_object)) ! 500 ! 400
             \<noteq> temp demo_object ! 500 ! 400"
      unfolding e
      by (simp add: demo_step1_def demo_object_def set_column_def demo_grid_def)
    show "frostcrackA (object_after (run_one_step demo_object)) ! 500 ! 400
             \<noteq> frostcrackA demo_object ! 500 ! 400"
      unfolding e
      by (simp add: demo_step1_def demo_object_def set_column_def demo_grid_def)
  qed
  from only_active_cell_changes[of 499 400 demo_object "[Run_one_step, Run_one_step]"]
  show ?thesis using a by simp
qed

text \<open>
  C10. On a call at time index 0 the column of cell (500, 400) is replaced by
  \<open>np.mean(Ts_org) + geotherm * depth\<close> before the boundary value is set and the
  diffusion update runs: the result of the call does not depend on the column the object
  had (any column of the same length gives the same object). On a call at any later index
  the update starts from the column the object has.
\<close>

theorem first_step_reseeds_column:
  assumes ok: "run_one_step s = Inr s'"
    and len: "length (depth s) = length (column (temp s) cell_x cell_y)"
  shows "(current_timestep s = 0 \<longrightarrow>
            column (temp s') cell_x cell_y =
              diffuse_column (thermal_diffusivity s) (dz s) (timestep_duration_is s)
                ((map (\<lambda>d. np_mean (Ts_org s) + geotherm s * d) (depth s))
                   [0 := Ts s ! 0]) \<and>
            (\<forall>c'. length c' = length (depth s) \<longrightarrow>
               run_one_step (s\<lparr>temp := set_column (temp s) cell_x cell_y c'\<rparr>) = Inr s')) \<and>
         (current_timestep s \<noteq> 0 \<longrightarrow>
            column (temp s') cell_x cell_y =
              diffuse_column (thermal_diffusivity s) (dz s) (timestep_duration_is s)
                ((column (temp s) cell_x cell_y)[0 := Ts s ! current_timestep s]))"
proof -
  from ok obtain c0 where
    c0: "current_timestep s \<noteq> 0 \<and> c0 = column (temp s) cell_x cell_y \<or>
         current_timestep s = 0 \<and>
           broadcast_to (length (column (temp s) cell_x cell_y))
             (map (\<lambda>d. np_mean (Ts_org s) + geotherm s * d) (depth s)) = Inr c0" and
    g: "in_grid (temp s) cell_x cell_y" and
    s': "s' = s\<lparr>temp := set_column (temp s) cell_x cell_y
                 (diffuse_column (thermal_diffusivity s) (dz s) (timestep_duration_is s)
                    (c0[0 := Ts s ! current_timestep s])),
              Ts_ini := Ts s ! current_timestep s,
              current_time := current_time s + timestep_duration_is s,
              current_timestep := current_timestep s + 1,
              frostcrackA := set_column (frostcrackA s) cell_x cell_y
                 (masked_add (column (frostcrackA s) cell_x cell_y)
                    (frost_window
                       (diffuse_column (thermal_diffusivity s) (dz s) (timestep_duration_is s)
                          (c0[0 := Ts s ! current_timestep s])))
                    (1 / (3600 * 24 * 365))),
              self_x := Some cell_x, self_y := Some cell_y\<rparr>"
    by (rule run_one_step_Inr)
  have col: "column (temp s') cell_x cell_y =
      diffuse_column (thermal_diffusivity s) (dz s) (timestep_duration_is s)
        (c0[0 := Ts s ! current_timestep s])"
    using g by (simp add: s' column_set_column)
  have later: "column (temp s') cell_x cell_y =
      diffuse_column (thermal_diffusivity s) (dz s) (timestep_duration_is s)
        ((column (temp s) cell_x cell_y)[0 := Ts s ! current_timestep s])"
    if "current_timestep s \<noteq> 0"
    using that c0 col by auto
  have seed: "c0 = map (\<lambda>d. np_mean (Ts_org s) + geotherm s * d) (depth s)"
    if "current_timestep s = 0"
    using that c0 len by (auto simp: broadcast_to_def)
  have first: "column (temp s') cell_x cell_y =
      diffuse_column (thermal_diffusivity s) (dz s) (timestep_duration_is s)
        ((map (\<lambda>d. np_mean (Ts_org s) + geotherm s * d) (depth s))[0 := Ts s ! 0])"
    if "current_timestep s = 0"
    using that col seed by simp
  have indep: "run_one_step (s\<lparr>temp := set_column (temp s) cell_x cell_y c'\<rparr>) = Inr s'"
    if k: "current_timestep s = 0" and c': "length c' = length (depth s)" for c'
  proof -
    let ?s0 = "s\<lparr>temp := set_column (temp s) cell_x cell_y c'\<rparr>"
    have "seed_first_step ?s0 = seed_first_step s"
      using k c' len g
      by (simp add: seed_first_step_def Let_def in_grid_set_column column_set_column
          set_column_twice broadcast_to_def)
    then show ?thesis using ok by (simp add: run_one_step_def)
  qed
  show ?thesis using later first indep by blast
qed

theorem first_step_reseeds_column_witness:
  "run_one_step demo_object = Inr demo_step1 \<and>
   length (depth demo_object) = length (column (temp demo_object) cell_x cell_y) \<and>
   current_timestep demo_object = 0 \<and>
   column (temp demo_object) cell_x cell_y = [- 5.2, - 4.7, - 4.2] \<and>
   map (\<lambda>d. np_mean (Ts_org demo_object) + geotherm demo_object * d) (depth demo_object)
     = [- 3.5, - 3, - 2.5] \<and>
   column (temp demo_step1) cell_x cell_y =
     diffuse_column (1 / 1000000) 20 3600 [- 5, - 3, - 2.5] \<and>
   run_one_step (demo_object\<lparr>temp := set_column (temp demo_object) cell_x cell_y [0, 0, 0]\<rparr>)
     = Inr demo_step1 \<and>
   run_one_step demo_step1 = Inr demo_step2 \<and>
   current_timestep demo_step1 \<noteq> 0 \<and>
   column (temp demo_step2) cell_x cell_y =
     diffuse_column (1 / 1000000) 20 3600 [- 4, - (6000027 / 2000000), - 2.5]"
proof -
  have col0: "column (temp demo_object) cell_x cell_y = [- 5.2, - 4.7, - 4.2]"
    by (simp add: demo_object_def cell_x_def cell_y_def demo_column)
  have col1: "column (temp demo_step1) cell_x cell_y = [- 5, - (6000027 / 2000000), - 2.5]"
    by (simp add: demo_step1_def demo_object_def cell_x_def cell_y_def demo_in_grid
        column_set_column)
  have f0: "length (depth demo_object) = length (column (temp demo_object) cell_x cell_y)"
    "current_timestep demo_object = 0" "Ts demo_object ! 0 = - 5"
    "thermal_diffusivity demo_object = 1 / 1000000" "dz demo_object = 20"
    "timestep_duration_is demo_object = 3600"
    "map (\<lambda>d. np_mean (Ts_org demo_object) + geotherm demo_object * d) (depth demo_object)
       = [- 3.5, - 3, - 2.5]"
    by (simp_all add: col0) (simp_all add: demo_object_def np_mean_def)
  have f1: "length (depth demo_step1) = length (column (temp demo_step1) cell_x cell_y)"
    "current_timestep demo_step1 = 1" "Ts demo_step1 ! Suc 0 = - 4"
    "thermal_diffusivity demo_step1 = 1 / 1000000" "dz demo_step1 = 20"
    "timestep_duration_is demo_step1 = 3600"
    by (simp_all add: col1) (simp_all add: demo_step1_def demo_object_def)
  have l: "length [0, 0, 0 :: real] = length (depth demo_object)"
    by (simp add: demo_object_def)
  note t0 = first_step_reseeds_column[OF run_demo_object f0(1)]
  note t1 = first_step_reseeds_column[OF run_demo_step1 f1(1)]
  from t0 f0(2) have
    a: "column (temp demo_step1) cell_x cell_y =
          diffuse_column (thermal_diffusivity demo_object) (dz demo_object)
            (timestep_duration_is demo_object)
            ((map (\<lambda>d. np_mean (Ts_org demo_object) + geotherm demo_object * d)
                (depth demo_object))[0 := Ts demo_object ! 0])" and
    b: "\<forall>c'. length c' = length (depth demo_object) \<longrightarrow>
          run_one_step (demo_object\<lparr>temp := set_column (temp demo_object) cell_x cell_y c'\<rparr>)
            = Inr demo_step1"
    by blast+
  from t1 f1(2) have
    c: "column (temp demo_step2) cell_x cell_y =
          diffuse_column (thermal_diffusivity demo_step1) (dz demo_step1)
            (timestep_duration_is demo_step1)
            ((column (temp demo_step1) cell_x cell_y)
               [0 := Ts demo_step1 ! current_timestep demo_step1])"
    by simp
  have a': "column (temp demo_step1) cell_x cell_y =
              diffuse_column (1 / 1000000) 20 3600 [- 5, - 3, - 2.5]"
    using a by (simp add: f0)
  have c': "column (temp demo_step2) cell_x cell_y =
              diffuse_column (1 / 1000000) 20 3600 [- 4, - (6000027 / 2000000), - 2.5]"
    using c by (simp add: f1 col1)
  show ?thesis
    using a' c' b[rule_format, OF l] f0(1,2,7) f1(2) col0 run_demo_object run_demo_step1
    by simp
qed

end
